theory Spec2Isabelle
  imports Complex_Main "HOL-Library.Multiset" "HOL-Library.AList"
begin

section \<open>Numbers as the code sees them\<close>

text \<open>
  The program computes with numpy/pandas double-precision values. The embedding keeps
  the special values of that arithmetic (not-a-number and the two infinities), because
  the program relies on them: a rolling window that is not yet full yields NaN, a
  division by zero yields an infinity or NaN instead of raising, and every comparison
  with NaN is false. Finite values are real numbers: rounding, overflow and the sign of
  zero are not modelled.
\<close>

datatype fval = Fin real | PInf | NInf | NaN

datatype py_error = ZeroDivisionError | IndexError | KeyError | ValueError

fun fneg :: "fval \<Rightarrow> fval" where
  "fneg (Fin x) = Fin (- x)"
| "fneg PInf = NInf"
| "fneg NInf = PInf"
| "fneg NaN = NaN"

fun fabs :: "fval \<Rightarrow> fval" where
  "fabs (Fin x) = Fin \<bar>x\<bar>"
| "fabs PInf = PInf"
| "fabs NInf = PInf"
| "fabs NaN = NaN"

fun fadd :: "fval \<Rightarrow> fval \<Rightarrow> fval" where
  "fadd (Fin x) (Fin y) = Fin (x + y)"
| "fadd NaN _ = NaN"
| "fadd _ NaN = NaN"
| "fadd PInf NInf = NaN"
| "fadd NInf PInf = NaN"
| "fadd PInf _ = PInf"
| "fadd NInf _ = NInf"
| "fadd _ PInf = PInf"
| "fadd _ NInf = NInf"

definition fsub :: "fval \<Rightarrow> fval \<Rightarrow> fval" where
  "fsub a b = fadd a (fneg b)"

text \<open>The sign of a value: \<open>Some True\<close> positive, \<open>Some False\<close> negative, \<open>None\<close> zero or NaN.\<close>

fun fsign :: "fval \<Rightarrow> bool option" where
  "fsign (Fin x) = (if 0 < x then Some True else if x < 0 then Some False else None)"
| "fsign PInf = Some True"
| "fsign NInf = Some False"
| "fsign NaN = None"

definition signed_inf :: "bool \<Rightarrow> fval" where
  "signed_inf pos = (if pos then PInf else NInf)"

fun fmul :: "fval \<Rightarrow> fval \<Rightarrow> fval" where
  "fmul (Fin x) (Fin y) = Fin (x * y)"
| "fmul NaN _ = NaN"
| "fmul _ NaN = NaN"
| "fmul a b =
     (case (fsign a, fsign b) of
        (Some s, Some t) \<Rightarrow> signed_inf (s = t)
      | _ \<Rightarrow> NaN)"

text \<open>
  Division of numpy doubles: a finite nonzero value over zero is an infinity, zero over
  zero and infinity over infinity are NaN, a finite value over an infinity is zero.
\<close>

fun fdiv :: "fval \<Rightarrow> fval \<Rightarrow> fval" where
  "fdiv NaN _ = NaN"
| "fdiv _ NaN = NaN"
| "fdiv (Fin x) (Fin y) =
     (if y \<noteq> 0 then Fin (x / y)
      else if 0 < x then PInf else if x < 0 then NInf else NaN)"
| "fdiv (Fin x) _ = Fin 0"
| "fdiv a (Fin y) =
     (case fsign a of
        Some s \<Rightarrow> signed_inf (s = (0 \<le> y))
      | None \<Rightarrow> NaN)"
| "fdiv _ _ = NaN"

fun flt :: "fval \<Rightarrow> fval \<Rightarrow> bool" where
  "flt (Fin x) (Fin y) = (x < y)"
| "flt NInf (Fin _) = True"
| "flt NInf PInf = True"
| "flt (Fin _) PInf = True"
| "flt _ _ = False"

fun fle :: "fval \<Rightarrow> fval \<Rightarrow> bool" where
  "fle (Fin x) (Fin y) = (x \<le> y)"
| "fle NaN _ = False"
| "fle _ NaN = False"
| "fle NInf _ = True"
| "fle _ PInf = True"
| "fle _ _ = False"

definition fgt :: "fval \<Rightarrow> fval \<Rightarrow> bool" where
  "fgt a b = flt b a"

definition fge :: "fval \<Rightarrow> fval \<Rightarrow> bool" where
  "fge a b = fle b a"

definition isna :: "fval \<Rightarrow> bool" where
  "isna v = (v = NaN)"

text \<open>\<open>np.log\<close>: minus infinity at zero, NaN on a negative argument.\<close>

fun np_log :: "fval \<Rightarrow> fval" where
  "np_log (Fin x) = (if 0 < x then Fin (ln x) else if x = 0 then NInf else NaN)"
| "np_log PInf = PInf"
| "np_log NInf = NaN"
| "np_log NaN = NaN"

section \<open>Options pricing: \<open>src/options/greeks.py\<close>\<close>

text \<open>
  The arguments are Python floats. The normal distribution functions \<open>norm.cdf\<close> and
  \<open>norm.pdf\<close> come from scipy and are parameters of the model. Every function computes
  \<open>S / K\<close> on Python floats once time remains, which raises ZeroDivisionError at
  \<open>K = 0\<close>; all later operations are numpy operations and do not raise.
\<close>

text \<open>The expression for \<open>d1\<close>, which the source repeats in each function.\<close>

definition d1_expr :: "real \<Rightarrow> real \<Rightarrow> real \<Rightarrow> real \<Rightarrow> real \<Rightarrow> py_error + fval" where
  "d1_expr S K T r sigma =
     (if K = 0 then Inl ZeroDivisionError
      else Inr (fdiv (fadd (np_log (Fin (S / K))) (Fin ((r + 0.5 * sigma ^ 2) * T)))
                     (Fin (sigma * sqrt T))))"

definition d2_expr :: "fval \<Rightarrow> real \<Rightarrow> real \<Rightarrow> fval" where
  "d2_expr d1 T sigma = fsub d1 (Fin (sigma * sqrt T))"

definition black_scholes_call ::
  "(fval \<Rightarrow> fval) \<Rightarrow> real \<Rightarrow> real \<Rightarrow> real \<Rightarrow> real \<Rightarrow> real \<Rightarrow> py_error + fval" where
  "black_scholes_call cdf S K T r sigma =
     (if T \<le> 0 then Inr (Fin (max (S - K) 0))
      else case d1_expr S K T r sigma of
        Inl e \<Rightarrow> Inl e
      | Inr d1 \<Rightarrow>
          Inr (fsub (fmul (Fin S) (cdf d1))
                    (fmul (Fin (K * exp (- r * T))) (cdf (d2_expr d1 T sigma)))))"

definition black_scholes_put ::
  "(fval \<Rightarrow> fval) \<Rightarrow> real \<Rightarrow> real \<Rightarrow> real \<Rightarrow> real \<Rightarrow> real \<Rightarrow> py_error + fval" where
  "black_scholes_put cdf S K T r sigma =
     (if T \<le> 0 then Inr (Fin (max (K - S) 0))
      else case d1_expr S K T r sigma of
        Inl e \<Rightarrow> Inl e
      | Inr d1 \<Rightarrow>
          Inr (fsub (fmul (Fin (K * exp (- r * T))) (cdf (fneg (d2_expr d1 T sigma))))
                    (fmul (Fin S) (cdf (fneg d1)))))"

definition calculate_delta ::
  "(fval \<Rightarrow> fval) \<Rightarrow> real \<Rightarrow> real \<Rightarrow> real \<Rightarrow> real \<Rightarrow> real \<Rightarrow> string \<Rightarrow> py_error + fval" where
  "calculate_delta cdf S K T r sigma option_type =
     (if T \<le> 0 then
        (if option_type = ''call'' then Inr (Fin (if K < S then 1 else 0))
         else Inr (Fin (if S < K then - 1 else 0)))
      else case d1_expr S K T r sigma of
        Inl e \<Rightarrow> Inl e
      | Inr d1 \<Rightarrow>
          (if option_type = ''call'' then Inr (cdf d1)
           else Inr (fsub (cdf d1) (Fin 1))))"

definition calculate_gamma ::
  "(fval \<Rightarrow> fval) \<Rightarrow> real \<Rightarrow> real \<Rightarrow> real \<Rightarrow> real \<Rightarrow> real \<Rightarrow> py_error + fval" where
  "calculate_gamma pdf S K T r sigma =
     (if T \<le> 0 then Inr (Fin 0)
      else case d1_expr S K T r sigma of
        Inl e \<Rightarrow> Inl e
      | Inr d1 \<Rightarrow> Inr (fdiv (pdf d1) (Fin (S * sigma * sqrt T))))"

definition calculate_theta ::
  "(fval \<Rightarrow> fval) \<Rightarrow> (fval \<Rightarrow> fval) \<Rightarrow> real \<Rightarrow> real \<Rightarrow> real \<Rightarrow> real \<Rightarrow> real \<Rightarrow> string
     \<Rightarrow> py_error + fval" where
  "calculate_theta cdf pdf S K T r sigma option_type =
     (if T \<le> 0 then Inr (Fin 0)
      else case d1_expr S K T r sigma of
        Inl e \<Rightarrow> Inl e
      | Inr d1 \<Rightarrow>
          (let d2 = d2_expr d1 T sigma;
               decay = fdiv (fmul (fmul (Fin (- S)) (pdf d1)) (Fin sigma)) (Fin (2 * sqrt T));
               theta =
                 (if option_type = ''call''
                  then fsub decay (fmul (Fin (r * K * exp (- r * T))) (cdf d2))
                  else fadd decay (fmul (Fin (r * K * exp (- r * T))) (cdf (fneg d2))))
           in Inr (fdiv theta (Fin 365))))"

definition calculate_vega ::
  "(fval \<Rightarrow> fval) \<Rightarrow> real \<Rightarrow> real \<Rightarrow> real \<Rightarrow> real \<Rightarrow> real \<Rightarrow> py_error + fval" where
  "calculate_vega pdf S K T r sigma =
     (if T \<le> 0 then Inr (Fin 0)
      else case d1_expr S K T r sigma of
        Inl e \<Rightarrow> Inl e
      | Inr d1 \<Rightarrow> Inr (fdiv (fmul (fmul (Fin S) (pdf d1)) (Fin (sqrt T))) (Fin 100)))"

definition calculate_rho ::
  "(fval \<Rightarrow> fval) \<Rightarrow> real \<Rightarrow> real \<Rightarrow> real \<Rightarrow> real \<Rightarrow> real \<Rightarrow> string \<Rightarrow> py_error + fval" where
  "calculate_rho cdf S K T r sigma option_type =
     (if T \<le> 0 then Inr (Fin 0)
      else case d1_expr S K T r sigma of
        Inl e \<Rightarrow> Inl e
      | Inr d1 \<Rightarrow>
          (let d2 = d2_expr d1 T sigma;
               rho =
                 (if option_type = ''call''
                  then fmul (Fin (K * T * exp (- r * T))) (cdf d2)
                  else fmul (Fin (- K * T * exp (- r * T))) (cdf (fneg d2)))
           in Inr (fdiv rho (Fin 100))))"

record greeks =
  delta :: fval
  gamma :: fval
  theta :: fval
  vega :: fval
  rho :: fval
  theoretical_price :: fval

definition calculate_all_greeks ::
  "(fval \<Rightarrow> fval) \<Rightarrow> (fval \<Rightarrow> fval) \<Rightarrow> real \<Rightarrow> real \<Rightarrow> real \<Rightarrow> real \<Rightarrow> real \<Rightarrow> string
     \<Rightarrow> py_error + greeks" where
  "calculate_all_greeks cdf pdf S K T r sigma option_type =
     (case calculate_delta cdf S K T r sigma option_type of Inl e \<Rightarrow> Inl e | Inr d \<Rightarrow>
      case calculate_gamma pdf S K T r sigma of Inl e \<Rightarrow> Inl e | Inr g \<Rightarrow>
      case calculate_theta cdf pdf S K T r sigma option_type of Inl e \<Rightarrow> Inl e | Inr th \<Rightarrow>
      case calculate_vega pdf S K T r sigma of Inl e \<Rightarrow> Inl e | Inr v \<Rightarrow>
      case calculate_rho cdf S K T r sigma option_type of Inl e \<Rightarrow> Inl e | Inr rh \<Rightarrow>
      case (if option_type = ''call'' then black_scholes_call cdf S K T r sigma
            else black_scholes_put cdf S K T r sigma) of Inl e \<Rightarrow> Inl e | Inr p \<Rightarrow>
        Inr \<lparr>delta = d, gamma = g, theta = th, vega = v, rho = rh, theoretical_price = p\<rparr>)"

section \<open>Series primitives\<close>

text \<open>
  A price bar and a frame of bars in date order, the \<open>DataFrame\<close> which the data
  fetcher hands to the analysis code. Prices and volumes of the input are finite; derived
  series are lists of \<open>fval\<close>, aligned with the rows by position.
\<close>

record bar =
  Open :: real
  High :: real
  Low :: real
  Close :: real
  Volume :: real

type_synonym dataframe = "bar list"

text \<open>\<open>df['Close']\<close> and the like: one column as a series.\<close>

definition col :: "(bar \<Rightarrow> real) \<Rightarrow> dataframe \<Rightarrow> fval list" where
  "col f df = map (\<lambda>b. Fin (f b)) df"

text \<open>\<open>s.tail(n)\<close> and \<open>s.iloc[-k]\<close>; the latter raises IndexError out of range.\<close>

definition tail :: "nat \<Rightarrow> 'a list \<Rightarrow> 'a list" where
  "tail n xs = drop (length xs - n) xs"

definition iloc_neg :: "'a list \<Rightarrow> nat \<Rightarrow> py_error + 'a" where
  "iloc_neg xs k =
     (if k = 0 \<or> length xs < k then Inl IndexError else Inr (xs ! (length xs - k)))"

text \<open>\<open>s.shift(1)\<close>: every value moves one position later, the first becomes NaN.\<close>

definition shift1 :: "fval list \<Rightarrow> fval list" where
  "shift1 xs = (if xs = [] then [] else NaN # butlast xs)"

text \<open>\<open>s.diff()\<close>: the difference to the previous value, NaN at the first position.\<close>

definition diff :: "fval list \<Rightarrow> fval list" where
  "diff xs = map (\<lambda>(x, p). fsub x p) (zip xs (shift1 xs))"

definition fsum :: "fval list \<Rightarrow> fval" where
  "fsum xs = foldl fadd (Fin 0) xs"

definition fmean :: "fval list \<Rightarrow> fval" where
  "fmean xs = fdiv (fsum xs) (Fin (real (length xs)))"

definition fmax2 :: "fval \<Rightarrow> fval \<Rightarrow> fval" where
  "fmax2 a b = (if flt a b then b else a)"

definition fmin2 :: "fval \<Rightarrow> fval \<Rightarrow> fval" where
  "fmin2 a b = (if flt b a then b else a)"

fun fmax_list :: "fval list \<Rightarrow> fval" where
  "fmax_list [] = NaN"
| "fmax_list (x # xs) = foldl fmax2 x xs"

fun fmin_list :: "fval list \<Rightarrow> fval" where
  "fmin_list [] = NaN"
| "fmin_list (x # xs) = foldl fmin2 x xs"

fun fsqrt :: "fval \<Rightarrow> fval" where
  "fsqrt (Fin x) = (if 0 \<le> x then Fin (sqrt x) else NaN)"
| "fsqrt PInf = PInf"
| "fsqrt NInf = NaN"
| "fsqrt NaN = NaN"

text \<open>The sample standard deviation (one degree of freedom removed) of a window.\<close>

definition fstd :: "fval list \<Rightarrow> fval" where
  "fstd xs =
     (let m = fmean xs;
          sq = map (\<lambda>x. fmul (fsub x m) (fsub x m)) xs
      in fsqrt (fdiv (fsum sq) (Fin (real (length xs) - 1))))"

text \<open>
  \<open>s.rolling(window=w)\<close> followed by an aggregation. The minimum number of observations
  is the window size, so the result is NaN until \<open>w\<close> values are available and
  wherever the window holds a NaN. The window size is a natural number: a negative one,
  which pandas rejects, is outside the type.
\<close>

definition rolling :: "nat \<Rightarrow> (fval list \<Rightarrow> fval) \<Rightarrow> fval list \<Rightarrow> fval list" where
  "rolling w agg xs =
     map (\<lambda>i. if i + 1 < w then NaN
               else (let win = take w (drop (i + 1 - w) xs)
                     in if NaN \<in> set win then NaN else agg win))
         [0..<length xs]"

text \<open>
  \<open>s.ewm(span=period, adjust=False).mean()\<close>, with the smoothing factor
  \<open>2 / (period + 1)\<close>. The state is the running average and the weight of the past,
  which decays over missing values; pandas rejects a span below 1.
\<close>

fun ewm_loop :: "real \<Rightarrow> fval \<Rightarrow> real \<Rightarrow> fval list \<Rightarrow> fval list" where
  "ewm_loop alpha weighted old_wt [] = []"
| "ewm_loop alpha weighted old_wt (cur # rest) =
     (if weighted \<noteq> NaN then
        (let old_wt' = old_wt * (1 - alpha) in
         if cur \<noteq> NaN then
           (let weighted' =
                  (if weighted \<noteq> cur
                   then fdiv (fadd (fmul (Fin old_wt') weighted) (fmul (Fin alpha) cur))
                             (Fin (old_wt' + alpha))
                   else weighted)
            in weighted' # ewm_loop alpha weighted' 1 rest)
         else weighted # ewm_loop alpha weighted old_wt' rest)
      else if cur \<noteq> NaN then cur # ewm_loop alpha cur old_wt rest
      else weighted # ewm_loop alpha weighted old_wt rest)"

definition ewm_mean :: "nat \<Rightarrow> fval list \<Rightarrow> py_error + fval list" where
  "ewm_mean spn xs =
     (if spn < 1 then Inl ValueError
      else case xs of
        [] \<Rightarrow> Inr []
      | x # rest \<Rightarrow> Inr (x # ewm_loop (2 / (real spn + 1)) x 1 rest))"

text \<open>\<open>s.cumsum()\<close>: the running sum, which skips missing values and leaves them missing.\<close>

fun cumsum_from :: "fval \<Rightarrow> fval list \<Rightarrow> fval list" where
  "cumsum_from acc [] = []"
| "cumsum_from acc (x # xs) =
     (if x = NaN then NaN # cumsum_from acc xs
      else fadd acc x # cumsum_from (fadd acc x) xs)"

definition cumsum :: "fval list \<Rightarrow> fval list" where
  "cumsum xs = cumsum_from (Fin 0) xs"

section \<open>Technical indicators: \<open>src/analysis/technical.py\<close>\<close>

definition calculate_sma :: "fval list \<Rightarrow> nat \<Rightarrow> fval list" where
  "calculate_sma data period = rolling period fmean data"

definition calculate_ema :: "fval list \<Rightarrow> nat \<Rightarrow> py_error + fval list" where
  "calculate_ema data period = ewm_mean period data"

text \<open>
  The relative strength index. The local series \<open>gain\<close>, \<open>loss\<close>, \<open>avg_gain\<close> and
  \<open>avg_loss\<close> of \<open>calculate_rsi\<close> are definitions of their own, so that statements
  can speak about them.
\<close>

text \<open>\<open>s.where(cond, 0)\<close> keeps a value where the condition holds; \<open>s.fillna(0)\<close>.\<close>

definition where_or_zero :: "(fval \<Rightarrow> bool) \<Rightarrow> fval \<Rightarrow> fval" where
  "where_or_zero cond d = (if cond d then d else Fin 0)"

definition fillna_zero :: "fval \<Rightarrow> fval" where
  "fillna_zero v = (if isna v then Fin 0 else v)"

definition rsi_gain :: "fval list \<Rightarrow> fval list" where
  "rsi_gain data =
     map fillna_zero (map (where_or_zero (\<lambda>d. fgt d (Fin 0))) (diff data))"

definition rsi_loss :: "fval list \<Rightarrow> fval list" where
  "rsi_loss data =
     map fillna_zero (map fneg (map (where_or_zero (\<lambda>d. flt d (Fin 0))) (diff data)))"

definition rsi_avg_gain :: "fval list \<Rightarrow> nat \<Rightarrow> fval list" where
  "rsi_avg_gain data period = rolling period fmean (rsi_gain data)"

definition rsi_avg_loss :: "fval list \<Rightarrow> nat \<Rightarrow> fval list" where
  "rsi_avg_loss data period = rolling period fmean (rsi_loss data)"

definition rsi_of :: "fval \<Rightarrow> fval \<Rightarrow> fval" where
  "rsi_of avg_gain avg_loss =
     (let rs = fdiv avg_gain avg_loss
      in fsub (Fin 100) (fdiv (Fin 100) (fadd (Fin 1) rs)))"

definition calculate_rsi :: "fval list \<Rightarrow> nat \<Rightarrow> fval list" where
  "calculate_rsi data period =
     map (\<lambda>(g, l). rsi_of g l) (zip (rsi_avg_gain data period) (rsi_avg_loss data period))"

definition calculate_macd ::
  "fval list \<Rightarrow> nat \<Rightarrow> nat \<Rightarrow> nat \<Rightarrow> py_error + (fval list \<times> fval list \<times> fval list)" where
  "calculate_macd data fast_period slow_period signal_period =
     (case calculate_ema data fast_period of Inl e \<Rightarrow> Inl e | Inr ema_fast \<Rightarrow>
      case calculate_ema data slow_period of Inl e \<Rightarrow> Inl e | Inr ema_slow \<Rightarrow>
        (let macd_line = map (\<lambda>(a, b). fsub a b) (zip ema_fast ema_slow) in
         case calculate_ema macd_line signal_period of Inl e \<Rightarrow> Inl e | Inr signal_line \<Rightarrow>
           (let histogram = map (\<lambda>(a, b). fsub a b) (zip macd_line signal_line)
            in Inr (macd_line, signal_line, histogram))))"

definition calculate_bollinger_bands ::
  "fval list \<Rightarrow> nat \<Rightarrow> real \<Rightarrow> fval list \<times> fval list \<times> fval list" where
  "calculate_bollinger_bands data period std_dev =
     (let middle_band = calculate_sma data period;
          rolling_std = rolling period fstd data;
          upper_band = map (\<lambda>(m, sd). fadd m (fmul sd (Fin std_dev))) (zip middle_band rolling_std);
          lower_band = map (\<lambda>(m, sd). fsub m (fmul sd (Fin std_dev))) (zip middle_band rolling_std)
      in (upper_band, middle_band, lower_band))"

definition calculate_vwap :: "dataframe \<Rightarrow> fval list" where
  "calculate_vwap df =
     (let typical_price =
            map (\<lambda>b. fdiv (fadd (fadd (Fin (High b)) (Fin (Low b))) (Fin (Close b))) (Fin 3)) df;
          pv = map (\<lambda>(tp, v). fmul tp v) (zip typical_price (col Volume df))
      in map (\<lambda>(a, b). fdiv a b) (zip (cumsum pv) (cumsum (col Volume df))))"

text \<open>
  On-balance volume: the loop of \<open>calculate_obv\<close> carries the previous bar and the
  previous value. Reading the first row of an empty frame raises IndexError.
\<close>

fun obv_loop :: "bar \<Rightarrow> fval \<Rightarrow> dataframe \<Rightarrow> fval list" where
  "obv_loop prev acc [] = []"
| "obv_loop prev acc (b # bs) =
     (let v = (if Close prev < Close b then fadd acc (Fin (Volume b))
               else if Close b < Close prev then fsub acc (Fin (Volume b))
               else acc)
      in v # obv_loop b v bs)"

definition calculate_obv :: "dataframe \<Rightarrow> py_error + fval list" where
  "calculate_obv df =
     (case df of
        [] \<Rightarrow> Inl IndexError
      | b # bs \<Rightarrow> Inr (Fin (Volume b) # obv_loop b (Fin (Volume b)) bs))"

text \<open>
  Crossovers of two aligned series: 1 where the first rises above the second, \<open>- 1\<close>
  where it falls below, 0 elsewhere. The source writes the bullish marks first and the
  bearish marks over them.
\<close>

definition identify_crossover :: "fval list \<Rightarrow> fval list \<Rightarrow> int list" where
  "identify_crossover series1 series2 =
     map (\<lambda>((a, b), (pa, pb)).
            (let bullish = (fgt a b \<and> fle pa pb);
                 bearish = (flt a b \<and> fge pa pb)
             in if bearish then - 1 else if bullish then 1 else 0))
         (zip (zip series1 series2) (zip (shift1 series1) (shift1 series2)))"

record cross_frame =
  cross_rows :: dataframe
  Golden_Cross :: "bool list"
  Death_Cross :: "bool list"

definition identify_golden_death_cross :: "dataframe \<Rightarrow> cross_frame" where
  "identify_golden_death_cross df =
     (let sma_50 = calculate_sma (col Close df) 50;
          sma_200 = calculate_sma (col Close df) 200;
          crossover = identify_crossover sma_50 sma_200
      in \<lparr>cross_rows = df,
          Golden_Cross = map (\<lambda>c. c = 1) crossover,
          Death_Cross = map (\<lambda>c. c = - 1) crossover\<rparr>)"

section \<open>Chart patterns: \<open>src/analysis/patterns.py\<close>\<close>

definition detect_consolidation :: "dataframe \<Rightarrow> nat \<Rightarrow> real \<Rightarrow> bool list" where
  "detect_consolidation df window threshold =
     (let rolling_high = rolling window fmax_list (col High df);
          rolling_low = rolling window fmin_list (col Low df)
      in map (\<lambda>(h, l).
                (let avg_price = fdiv (fadd h l) (Fin 2);
                     price_range_pct = fmul (fdiv (fsub h l) avg_price) (Fin 100)
                 in flt price_range_pct (Fin (threshold * 100))))
             (zip rolling_high rolling_low))"

record stats_52w =
  high_52w :: fval
  low_52w :: fval
  stats_current_price :: fval
  pct_from_high :: fval
  pct_from_low :: fval
  stats_near_52w_high :: bool

text \<open>
  The fields are the keys \<open>52_week_high\<close>, \<open>52_week_low\<close>, \<open>current_price\<close>,
  \<open>pct_from_high\<close>, \<open>pct_from_low\<close> and \<open>near_52w_high\<close> of the returned dict.
  The maximum and minimum of an empty column are NaN; the last close of an empty frame
  raises IndexError.
\<close>

definition calculate_52_week_high_low :: "dataframe \<Rightarrow> py_error + stats_52w" where
  "calculate_52_week_high_low df =
     (let lookback = (if length df < 252 then length df else 252);
          recent_data = tail lookback df;
          high = fmax_list (col High recent_data);
          low = fmin_list (col Low recent_data)
      in case iloc_neg (col Close df) 1 of
           Inl e \<Rightarrow> Inl e
         | Inr current_price \<Rightarrow>
             (let from_high = fmul (fdiv (fsub current_price high) high) (Fin 100);
                  from_low = fmul (fdiv (fsub current_price low) low) (Fin 100)
              in Inr \<lparr>high_52w = high, low_52w = low, stats_current_price = current_price,
                      pct_from_high = from_high, pct_from_low = from_low,
                      stats_near_52w_high = fgt from_high (Fin (- 5))\<rparr>))"

section \<open>The scanner: \<open>src/scanner/breakout_scanner.py\<close>\<close>

definition calculate_relative_volume :: "dataframe \<Rightarrow> nat \<Rightarrow> fval option" where
  "calculate_relative_volume df period =
     (if length df < period + 1 then None
      else (let avg_volume = fmean (tail period (butlast (col Volume df)));
                current_volume = last (col Volume df)
            in if avg_volume = Fin 0 then None
               else Some (fdiv current_volume avg_volume)))"

definition check_volume_surge :: "dataframe \<Rightarrow> real \<Rightarrow> bool" where
  "check_volume_surge df threshold =
     (case calculate_relative_volume df 20 of
        None \<Rightarrow> False
      | Some rel_vol \<Rightarrow> fge rel_vol (Fin threshold))"

definition check_rsi_signal :: "dataframe \<Rightarrow> real \<Rightarrow> real \<Rightarrow> string" where
  "check_rsi_signal df oversold overbought =
     (let rsi = calculate_rsi (col Close df) 14
      in if rsi = [] \<or> isna (last rsi) then ''neutral''
         else (let current_rsi = last rsi
               in if flt current_rsi (Fin oversold) then ''oversold''
                  else if fgt current_rsi (Fin overbought) then ''overbought''
                  else ''neutral''))"

text \<open>\<open>s.any()\<close> on a boolean series.\<close>

definition any_true :: "bool list \<Rightarrow> bool" where
  "any_true bs = (True \<in> set bs)"

definition check_ma_crossover :: "dataframe \<Rightarrow> string" where
  "check_ma_crossover df =
     (if length df < 200 then ''none''
      else (let df_with_cross = identify_golden_death_cross df in
            if any_true (tail 5 (Golden_Cross df_with_cross)) then ''golden_cross''
            else if any_true (tail 5 (Death_Cross df_with_cross)) then ''death_cross''
            else ''none''))"

definition check_near_52w_high :: "dataframe \<Rightarrow> real \<Rightarrow> py_error + bool" where
  "check_near_52w_high df threshold =
     (case calculate_52_week_high_low df of
        Inl e \<Rightarrow> Inl e
      | Inr stats \<Rightarrow> Inr (fle (fabs (pct_from_high stats)) (Fin threshold)))"

record consolidation_status =
  in_consolidation :: bool
  breaking_out :: bool

text \<open>
  The percentage change of the last close against the close at \<open>iloc[-k]\<close>, an
  expression which the scanner writes out at three places. It is only evaluated where
  the frame has at least \<open>k\<close> rows.
\<close>

definition close_change :: "dataframe \<Rightarrow> nat \<Rightarrow> fval" where
  "close_change df k =
     (let c1 = Fin (Close (df ! (length df - 1)));
          ck = Fin (Close (df ! (length df - k)))
      in fmul (fdiv (fsub c1 ck) ck) (Fin 100))"

text \<open>
  \<open>consolidation.iloc[-10:-1]\<close> is the nine positions before the last one. The recent
  change of the close is measured from \<open>df['Close'].iloc[-5]\<close>.
\<close>

definition check_consolidation_breakout :: "dataframe \<Rightarrow> consolidation_status" where
  "check_consolidation_breakout df =
     (let consolidation = detect_consolidation df 20 0.05 in
      if length consolidation < 2 then \<lparr>in_consolidation = False, breaking_out = False\<rparr>
      else
        (let currently_consolidating = last consolidation;
             was_consolidating =
               (if 10 < length consolidation then any_true (butlast (tail 10 consolidation))
                else False);
             breaking = (was_consolidating \<and> \<not> currently_consolidating);
             breaking' =
               (if breaking \<and> 5 < length df
                then breaking \<and> fgt (close_change df 5) (Fin 2)
                else breaking)
         in \<lparr>in_consolidation = currently_consolidating, breaking_out = breaking'\<rparr>))"

record signals =
  ticker :: string
  current_price :: fval
  relative_volume :: "fval option"
  volume_surge :: bool
  rsi_signal :: string
  ma_crossover :: string
  near_52w_high :: bool
  consolidation :: consolidation_status
  price_change_5d :: "fval option"
  price_change_20d :: "fval option"
  rsi_value :: "fval option"

text \<open>
  The data fetcher is the external collaborator: it returns a frame or raises. The body
  of the \<open>try\<close> block of \<open>scan_ticker\<close> is \<open>scan_ticker_body\<close>; the \<open>except\<close>
  clause turns every exception into the result \<open>None\<close>.
\<close>

type_synonym fetcher = "string \<Rightarrow> py_error + dataframe"

definition scan_ticker_body :: "fetcher \<Rightarrow> string \<Rightarrow> py_error + signals option" where
  "scan_ticker_body fetch_historical_data tkr =
     (case fetch_historical_data tkr of
        Inl e \<Rightarrow> Inl e
      | Inr df \<Rightarrow>
          if df = [] \<or> length df < 50 then Inr None
          else
            (case iloc_neg (col Close df) 1 of
               Inl e \<Rightarrow> Inl e
             | Inr price \<Rightarrow>
                 (case check_near_52w_high df 5 of
                    Inl e \<Rightarrow> Inl e
                  | Inr near \<Rightarrow>
                      (let rsi = calculate_rsi (col Close df) 14
                       in Inr (Some
                            \<lparr>ticker = tkr,
                             current_price = price,
                             relative_volume = calculate_relative_volume df 20,
                             volume_surge = check_volume_surge df 2,
                             rsi_signal = check_rsi_signal df 30 70,
                             ma_crossover = check_ma_crossover df,
                             near_52w_high = near,
                             consolidation = check_consolidation_breakout df,
                             price_change_5d =
                               (if 5 < length df then Some (close_change df 6) else None),
                             price_change_20d =
                               (if 20 < length df then Some (close_change df 21) else None),
                             rsi_value = (if rsi \<noteq> [] then Some (last rsi) else None)\<rparr>)))))"

definition scan_ticker :: "fetcher \<Rightarrow> string \<Rightarrow> signals option" where
  "scan_ticker fetch_historical_data tkr =
     (case scan_ticker_body fetch_historical_data tkr of
        Inl e \<Rightarrow> None
      | Inr result \<Rightarrow> result)"

text \<open>
  The loop of \<open>scan_multiple_tickers\<close> appends to \<open>results\<close>. The function is
  modelled with \<open>filters\<close> left at its default \<open>None\<close>, which is how every caller in
  the repository uses it; the rows of the returned frame are the list.
\<close>

fun scan_loop :: "fetcher \<Rightarrow> string list \<Rightarrow> signals list \<Rightarrow> signals list" where
  "scan_loop fetch_historical_data [] results = results"
| "scan_loop fetch_historical_data (tkr # rest) results =
     (case scan_ticker fetch_historical_data tkr of
        None \<Rightarrow> scan_loop fetch_historical_data rest results
      | Some sig \<Rightarrow> scan_loop fetch_historical_data rest (results @ [sig]))"

definition scan_multiple_tickers :: "fetcher \<Rightarrow> string list \<Rightarrow> signals list" where
  "scan_multiple_tickers fetch_historical_data tickers =
     (let results = scan_loop fetch_historical_data tickers []
      in if results = [] then [] else results)"

record flagged = signals +
  is_breaking_out :: bool

record candidate = flagged +
  breakout_score :: int

text \<open>
  \<open>sort_values('breakout_score', ascending=False)\<close> is a pandas call with the default
  sorting algorithm (quicksort), which pandas documents as not stable. The model takes
  the permutation that the call applies, a function of the key column, as a parameter:
  \<open>sorts_descending\<close> is what the library promises of it. The rows are then taken in
  the order of the permutation; a position outside the frame raises IndexError.
\<close>

type_synonym indexer = "int list \<Rightarrow> nat list"

definition sorts_descending :: "indexer \<Rightarrow> bool" where
  "sorts_descending srt =
     (\<forall>keys. mset (srt keys) = mset [0..<length keys]
           \<and> sorted_wrt (\<lambda>i j. keys ! j \<le> keys ! i) (srt keys))"

definition take_rows :: "nat list \<Rightarrow> 'a list \<Rightarrow> py_error + 'a list" where
  "take_rows idx rows =
     (if list_all (\<lambda>i. i < length rows) idx then Inr (map (\<lambda>i. rows ! i) idx)
      else Inl IndexError)"

definition is_candidate :: "flagged \<Rightarrow> bool" where
  "is_candidate r =
     (is_breaking_out r
      \<or> (near_52w_high r \<and> volume_surge r)
      \<or> (ma_crossover r = ''golden_cross''
         \<and> (case relative_volume r of None \<Rightarrow> False | Some v \<Rightarrow> fgt v (Fin 1.5))))"

definition composite_score :: "flagged \<Rightarrow> int" where
  "composite_score r =
     (if is_breaking_out r then 1 else 0) * 3
     + (if near_52w_high r then 1 else 0) * 2
     + (if volume_surge r then 1 else 0) * 2
     + (if ma_crossover r = ''golden_cross'' then 1 else 0) * 2"

text \<open>
  The frame \<open>breakout_candidates\<close> of \<open>find_breakout_candidates\<close> once the score
  column is assigned and before it is sorted.
\<close>

definition scored_candidates :: "signals list \<Rightarrow> candidate list" where
  "scored_candidates df =
     (let df' = map (\<lambda>s. signals.extend s
                         (flagged.fields (breaking_out (consolidation s)))) df;
          breakout_candidates = filter is_candidate df'
      in map (\<lambda>r. flagged.extend r (candidate.fields (composite_score r)))
           breakout_candidates)"

definition find_breakout_candidates ::
  "indexer \<Rightarrow> fetcher \<Rightarrow> string list \<Rightarrow> py_error + candidate list" where
  "find_breakout_candidates srt fetch_historical_data tickers =
     (let df = scan_multiple_tickers fetch_historical_data tickers in
      if df = [] then Inr []
      else
        (let breakout_candidates = scored_candidates df
         in take_rows (srt (map breakout_score breakout_candidates)) breakout_candidates))"

section \<open>Frames as objects: \<open>add_all_indicators\<close>\<close>

text \<open>
  \<open>add_all_indicators\<close> copies its argument and assigns columns to the copy. Whether
  the argument is left alone depends on which object each assignment writes to, so
  frames live in a store of objects here, addressed by position. A frame object holds
  the price rows, whether it has a \<open>Volume\<close> column, and the derived columns in the
  order of their insertion. A program step takes the store and returns the new store
  with a result or an exception.
\<close>

record frame =
  rows :: dataframe
  has_volume :: bool
  columns :: "(string \<times> fval list) list"

type_synonym store = "frame list"

type_synonym 'a prog = "store \<Rightarrow> store \<times> (py_error + 'a)"

definition returns :: "'a \<Rightarrow> 'a prog" where
  "returns x st = (st, Inr x)"

definition lift_result :: "py_error + 'a \<Rightarrow> 'a prog" where
  "lift_result r st = (st, r)"

definition and_then :: "'a prog \<Rightarrow> ('a \<Rightarrow> 'b prog) \<Rightarrow> 'b prog" where
  "and_then m f st =
     (case m st of
        (st', Inl e) \<Rightarrow> (st', Inl e)
      | (st', Inr x) \<Rightarrow> f x st')"

text \<open>\<open>df.copy()\<close> allocates a new object with the same content.\<close>

definition df_copy :: "nat \<Rightarrow> nat prog" where
  "df_copy df st = (st @ [st ! df], Inr (length st))"

definition read_rows :: "nat \<Rightarrow> dataframe prog" where
  "read_rows df st = (st, Inr (rows (st ! df)))"

definition has_volume_column :: "nat \<Rightarrow> bool prog" where
  "has_volume_column df st = (st, Inr (has_volume (st ! df)))"

text \<open>\<open>df[name] = series\<close> replaces the column of that name or appends a new one.\<close>

definition set_column :: "nat \<Rightarrow> string \<Rightarrow> fval list \<Rightarrow> unit prog" where
  "set_column df name series st =
     (st[df := (st ! df)\<lparr>columns := AList.update name series (columns (st ! df))\<rparr>], Inr ())"

text \<open>
  \<open>target[name] = f(source)\<close>: the rows of the source are read when the statement runs.
\<close>

definition assign :: "nat \<Rightarrow> string \<Rightarrow> nat \<Rightarrow> (dataframe \<Rightarrow> py_error + fval list) \<Rightarrow> unit prog" where
  "assign target name source f =
     and_then (read_rows source) (\<lambda>r.
     and_then (lift_result (f r)) (\<lambda>series.
     set_column target name series))"

definition add_all_indicators :: "nat \<Rightarrow> nat prog" where
  "add_all_indicators df =
     and_then (df_copy df) (\<lambda>result_df.
     and_then (assign result_df ''SMA_20'' df (\<lambda>r. Inr (calculate_sma (col Close r) 20))) (\<lambda>_.
     and_then (assign result_df ''SMA_50'' df (\<lambda>r. Inr (calculate_sma (col Close r) 50))) (\<lambda>_.
     and_then (assign result_df ''SMA_200'' df (\<lambda>r. Inr (calculate_sma (col Close r) 200))) (\<lambda>_.
     and_then (assign result_df ''EMA_12'' df (\<lambda>r. calculate_ema (col Close r) 12)) (\<lambda>_.
     and_then (assign result_df ''EMA_26'' df (\<lambda>r. calculate_ema (col Close r) 26)) (\<lambda>_.
     and_then (assign result_df ''RSI'' df (\<lambda>r. Inr (calculate_rsi (col Close r) 14))) (\<lambda>_.
     and_then (read_rows df) (\<lambda>r.
     and_then (lift_result (calculate_macd (col Close r) 12 26 9)) (\<lambda>(macd, signal, histogram).
     and_then (set_column result_df ''MACD'' macd) (\<lambda>_.
     and_then (set_column result_df ''MACD_Signal'' signal) (\<lambda>_.
     and_then (set_column result_df ''MACD_Histogram'' histogram) (\<lambda>_.
     and_then (read_rows df) (\<lambda>r.
     and_then (returns (calculate_bollinger_bands (col Close r) 20 2)) (\<lambda>(bb_upper, bb_middle, bb_lower).
     and_then (set_column result_df ''BB_Upper'' bb_upper) (\<lambda>_.
     and_then (set_column result_df ''BB_Middle'' bb_middle) (\<lambda>_.
     and_then (set_column result_df ''BB_Lower'' bb_lower) (\<lambda>_.
     and_then (has_volume_column df) (\<lambda>volume_present.
       if volume_present then
         and_then (assign result_df ''VWAP'' df (\<lambda>r. Inr (calculate_vwap r))) (\<lambda>_.
         and_then (assign result_df ''OBV'' df calculate_obv) (\<lambda>_.
         returns result_df))
       else returns result_df))))))))))))))))))"

section \<open>Auxiliary notions and example inputs\<close>

text \<open>A value that is missing or not negative, as the rolling averages of RSI are.\<close>

definition nonneg_or_nan :: "fval \<Rightarrow> bool" where
  "nonneg_or_nan v = (v = NaN \<or> fle (Fin 0) v)"

text \<open>Sixteen closes rising by one a day, and sixteen equal closes.\<close>

definition rising_closes :: "fval list" where
  "rising_closes = map (\<lambda>n. Fin (real n)) [100..<116]"

definition flat_closes :: "fval list" where
  "flat_closes = replicate 16 (Fin 100)"

text \<open>
  A bar with all four prices equal and a volume of 1, and a frame of 202 such bars: 200
  closes at 100, then 101, then 0. The 50-day average rises above the 200-day average
  at the last but one bar and falls below it at the last.
\<close>

definition flat_bar :: "real \<Rightarrow> bar" where
  "flat_bar c = \<lparr>Open = c, High = c, Low = c, Close = c, Volume = 1\<rparr>"

definition cross_both_frame :: dataframe where
  "cross_both_frame = map flat_bar (replicate 200 100 @ [101, 0])"

text \<open>
  A stand-in for the data fetcher that serves frames from a table and raises for every
  other ticker, and the tickers that a scan keeps: those whose fetch returns at least 50
  bars.
\<close>

definition serve :: "(string \<times> dataframe) list \<Rightarrow> fetcher" where
  "serve table tkr = (case map_of table tkr of None \<Rightarrow> Inl ValueError | Some df \<Rightarrow> Inr df)"

definition scannable :: "fetcher \<Rightarrow> string \<Rightarrow> bool" where
  "scannable fetch_historical_data tkr =
     (case fetch_historical_data tkr of Inl e \<Rightarrow> False | Inr df \<Rightarrow> 50 \<le> length df)"

text \<open>
  Fifty bars with a high of 100 throughout and a last close of 95, five percent below
  the high.
\<close>

definition five_below_frame :: dataframe where
  "five_below_frame =
     replicate 49 (flat_bar 100) @ [\<lparr>Open = 95, High = 100, Low = 95, Close = 95, Volume = 1\<rparr>]"

text \<open>Fifty flat bars at 100 whose last volume is three times the volume before.\<close>

definition surge_frame :: dataframe where
  "surge_frame =
     replicate 49 (flat_bar 100)
       @ [\<lparr>Open = 100, High = 100, Low = 100, Close = 100, Volume = 3\<rparr>]"

text \<open>An indexer that sorts descending and keeps equal keys in their order.\<close>

definition stable_indexer :: indexer where
  "stable_indexer keys = sort_key (\<lambda>i. - (keys ! i)) [0..<length keys]"

text \<open>
  A quiet bar between 99 and 101 closing at 100. A frame of 200 quiet bars and a last
  bar that closes at 103 under a high of 106; a frame of 49 quiet bars and a last bar
  that closes at 102, two percent up, under a high of 110.
\<close>

definition quiet_bar :: bar where
  "quiet_bar = \<lparr>Open = 100, High = 101, Low = 99, Close = 100, Volume = 1\<rparr>"

definition seven_frame :: dataframe where
  "seven_frame =
     replicate 200 quiet_bar @ [\<lparr>Open = 100, High = 106, Low = 99, Close = 103, Volume = 1\<rparr>]"

definition two_percent_frame :: dataframe where
  "two_percent_frame =
     replicate 49 quiet_bar @ [\<lparr>Open = 100, High = 110, Low = 99, Close = 102, Volume = 1\<rparr>]"

text \<open>
  The row that \<open>find_breakout_candidates\<close> makes of a scan record: with the flag
  \<open>is_breaking_out\<close>, and with the score.
\<close>

definition flag_row :: "signals \<Rightarrow> flagged" where
  "flag_row s = signals.extend s (flagged.fields (breaking_out (consolidation s)))"

definition score_row :: "signals \<Rightarrow> candidate" where
  "score_row s = flagged.extend (flag_row s) (candidate.fields (composite_score (flag_row s)))"

text \<open>A store with one frame of two quiet bars.\<close>

definition store0 :: store where
  "store0 = [\<lparr>rows = [quiet_bar, quiet_bar], has_volume = True, columns = []\<rparr>]"

section \<open>Options pricing at or after expiry\<close>

text \<open>
  C7. At \<open>T \<le> 0\<close>, for every spot, strike, rate, volatility and option type,
  \<open>calculate_all_greeks\<close> returns without raising: the theoretical price is the
  intrinsic value (\<open>max (S - K) 0\<close> for a call, \<open>max (K - S) 0\<close> for a put), gamma,
  theta, vega and rho are 0, and delta is 1 for a call with \<open>S > K\<close>, 0 for any other
  call, \<open>- 1\<close> for a put with \<open>S < K\<close> and 0 for any other put. Every option type other
  than the string \<open>call\<close> is priced as a put.
\<close>

theorem greeks_at_expiry:
  assumes "T \<le> 0"
  shows "calculate_all_greeks cdf pdf S K T r sigma option_type =
     Inr \<lparr>delta = Fin (if option_type = ''call'' then (if K < S then 1 else 0)
                         else (if S < K then - 1 else 0)),
          gamma = Fin 0, theta = Fin 0, vega = Fin 0, rho = Fin 0,
          theoretical_price = Fin (if option_type = ''call'' then max (S - K) 0
                                     else max (K - S) 0)\<rparr>"
  using assms
  by (simp add: calculate_all_greeks_def calculate_delta_def calculate_gamma_def
      calculate_theta_def calculate_vega_def calculate_rho_def black_scholes_call_def
      black_scholes_put_def)

theorem greeks_at_expiry_witness:
  "(0::real) \<le> 0 \<and>
   calculate_all_greeks (\<lambda>x. x) (\<lambda>x. x) 110 100 0 (5 / 100) (2 / 10) ''call'' =
     Inr \<lparr>delta = Fin 1, gamma = Fin 0, theta = Fin 0, vega = Fin 0, rho = Fin 0,
          theoretical_price = Fin 10\<rparr>
   \<and> calculate_all_greeks (\<lambda>x. x) (\<lambda>x. x) 90 100 (- 1) (5 / 100) (2 / 10) ''put'' =
     Inr \<lparr>delta = Fin (- 1), gamma = Fin 0, theta = Fin 0, vega = Fin 0, rho = Fin 0,
          theoretical_price = Fin 10\<rparr>"
  using greeks_at_expiry [of 0 "\<lambda>x. x" "\<lambda>x. x" 110 100 "5 / 100" "2 / 10" "''call''"]
    greeks_at_expiry [of "- 1" "\<lambda>x. x" "\<lambda>x. x" 90 100 "5 / 100" "2 / 10" "''put''"]
  by simp

text \<open>
  C10. At \<open>T \<le> 0\<close> with the spot exactly at the strike, \<open>calculate_delta\<close> returns
  0 for the call and for the put (and for every other option type string).
\<close>

theorem delta_at_the_money_at_expiry:
  assumes "T \<le> 0"
  shows "calculate_delta cdf S S T r sigma ''call'' = Inr (Fin 0)
       \<and> calculate_delta cdf S S T r sigma ''put'' = Inr (Fin 0)
       \<and> calculate_delta cdf S S T r sigma option_type = Inr (Fin 0)"
  using assms by (simp add: calculate_delta_def)

theorem delta_at_the_money_at_expiry_witness:
  "(0::real) \<le> 0
   \<and> calculate_delta (\<lambda>x. x) 100 100 0 (5 / 100) (2 / 10) ''call'' = Inr (Fin 0)
   \<and> calculate_delta (\<lambda>x. x) 100 100 0 (5 / 100) (2 / 10) ''put'' = Inr (Fin 0)"
  using delta_at_the_money_at_expiry [of 0 "\<lambda>x. x" 100 "5 / 100" "2 / 10" "''put''"]
  by simp

section \<open>The relative strength index at its edges\<close>

lemma fle0_fadd: "fle (Fin 0) a \<Longrightarrow> fle (Fin 0) b \<Longrightarrow> fle (Fin 0) (fadd a b)"
  by (cases a; cases b) auto

lemma fle0_foldl_fadd:
  "fle (Fin 0) a \<Longrightarrow> \<forall>x\<in>set xs. fle (Fin 0) x \<Longrightarrow> fle (Fin 0) (foldl fadd a xs)"
  by (induction xs arbitrary: a) (auto intro: fle0_fadd)

lemma fle0_fsum: "\<forall>x\<in>set xs. fle (Fin 0) x \<Longrightarrow> fle (Fin 0) (fsum xs)"
  unfolding fsum_def by (rule fle0_foldl_fadd) auto

lemma nonneg_fmean: "\<forall>x\<in>set xs. fle (Fin 0) x \<Longrightarrow> nonneg_or_nan (fmean xs)"
  using fle0_fsum [of xs] unfolding fmean_def nonneg_or_nan_def
  by (cases "fsum xs") (auto simp: signed_inf_def)

lemma rolling_nth:
  "i < length xs \<Longrightarrow> rolling w agg xs ! i =
     (if i + 1 < w then NaN
      else (let win = take w (drop (i + 1 - w) xs)
            in if NaN \<in> set win then NaN else agg win))"
  by (simp add: rolling_def)

lemma length_rolling [simp]: "length (rolling w agg xs) = length xs"
  by (simp add: rolling_def)

lemma nonneg_rolling_fmean:
  assumes "\<forall>x\<in>set xs. fle (Fin 0) x" "i < length xs"
  shows "nonneg_or_nan (rolling w fmean xs ! i)"
proof -
  have "\<forall>x\<in>set (take w (drop (i + 1 - w) xs)). fle (Fin 0) x"
    using assms(1) by (meson in_set_dropD in_set_takeD)
  then show ?thesis
    using assms(2) nonneg_fmean by (simp add: rolling_nth Let_def nonneg_or_nan_def)
qed

lemma length_shift1 [simp]: "length (shift1 xs) = length xs"
  by (simp add: shift1_def)

lemma length_diff [simp]: "length (diff xs) = length xs"
  by (simp add: diff_def)

lemma length_rsi_gain [simp]: "length (rsi_gain xs) = length xs"
  by (simp add: rsi_gain_def)

lemma length_rsi_loss [simp]: "length (rsi_loss xs) = length xs"
  by (simp add: rsi_loss_def)

lemma gain_point: "fle (Fin 0) (fillna_zero (where_or_zero (\<lambda>d. fgt d (Fin 0)) d))"
  by (cases d) (auto simp: isna_def fgt_def fillna_zero_def where_or_zero_def)

lemma loss_point: "fle (Fin 0) (fillna_zero (fneg (where_or_zero (\<lambda>d. flt d (Fin 0)) d)))"
  by (cases d) (auto simp: isna_def fillna_zero_def where_or_zero_def)

lemma rsi_gain_nonneg: "\<forall>x\<in>set (rsi_gain data). fle (Fin 0) x"
  by (auto simp: rsi_gain_def gain_point)

lemma rsi_loss_nonneg: "\<forall>x\<in>set (rsi_loss data). fle (Fin 0) x"
  by (auto simp: rsi_loss_def loss_point)

lemma rsi_real_range:
  fixes a b :: real
  assumes "0 \<le> a" "0 < b"
  shows "1 + a / b \<noteq> 0 \<and> 0 \<le> 100 - 100 / (1 + a / b) \<and> 100 - 100 / (1 + a / b) \<le> 100"
proof -
  have "0 \<le> a / b" using assms by simp
  then have "1 \<le> 1 + a / b" by simp
  then have "100 / (1 + a / b) \<le> 100 / 1" "0 \<le> 100 / (1 + a / b)" "1 + a / b \<noteq> 0"
    by (simp_all add: divide_le_eq)
  then show ?thesis by simp
qed

lemma rsi_of_range:
  assumes "nonneg_or_nan g" "nonneg_or_nan l"
  shows "case rsi_of g l of Fin x \<Rightarrow> 0 \<le> x \<and> x \<le> 100 | NaN \<Rightarrow> True | _ \<Rightarrow> False"
proof (cases g; cases l)
  fix a b assume gl: "g = Fin a" "l = Fin b"
  then have ab: "0 \<le> a" "0 \<le> b" using assms by (auto simp: nonneg_or_nan_def)
  show ?thesis
  proof (cases "b = 0")
    case True
    then show ?thesis using gl ab by (auto simp: rsi_of_def Let_def fsub_def)
  next
    case False
    then have "0 < b" using ab by simp
    from rsi_real_range [OF ab(1) this] show ?thesis
      using gl False by (simp add: rsi_of_def Let_def fsub_def)
  qed
qed (use assms in \<open>auto simp: nonneg_or_nan_def rsi_of_def Let_def fsub_def signed_inf_def\<close>)

lemma length_calculate_rsi [simp]: "length (calculate_rsi data period) = length data"
  by (simp add: calculate_rsi_def rsi_avg_gain_def rsi_avg_loss_def)

lemma calculate_rsi_nth:
  "i < length data \<Longrightarrow>
   calculate_rsi data period ! i = rsi_of (rsi_avg_gain data period ! i) (rsi_avg_loss data period ! i)"
  by (simp add: calculate_rsi_def rsi_avg_gain_def rsi_avg_loss_def)

text \<open>
  C4. At every position of a close series where the rolling average gain and the rolling
  average loss are both defined: an average loss of 0 with a positive average gain gives
  an RSI of exactly 100; an average loss of 0 with an average gain of 0 gives an
  undefined RSI (NaN); an RSI that is defined lies between 0 and 100; and the RSI is
  never an infinity. The infinity which the division by a zero average loss produces
  is absorbed by \<open>100 / (1 + rs)\<close>.
\<close>

theorem rsi_edge_cases:
  assumes "i < length data"
    and "rsi_avg_gain data period ! i \<noteq> NaN"
    and "rsi_avg_loss data period ! i \<noteq> NaN"
  shows "(rsi_avg_loss data period ! i = Fin 0 \<and> fgt (rsi_avg_gain data period ! i) (Fin 0)
            \<longrightarrow> calculate_rsi data period ! i = Fin 100)
       \<and> (rsi_avg_loss data period ! i = Fin 0 \<and> rsi_avg_gain data period ! i = Fin 0
            \<longrightarrow> calculate_rsi data period ! i = NaN)
       \<and> (calculate_rsi data period ! i \<noteq> NaN
            \<longrightarrow> fle (Fin 0) (calculate_rsi data period ! i)
              \<and> fle (calculate_rsi data period ! i) (Fin 100))
       \<and> calculate_rsi data period ! i \<noteq> PInf
       \<and> calculate_rsi data period ! i \<noteq> NInf"
proof -
  let ?g = "rsi_avg_gain data period ! i" and ?l = "rsi_avg_loss data period ! i"
  have g: "nonneg_or_nan ?g"
    unfolding rsi_avg_gain_def using assms(1) rsi_gain_nonneg
    by (intro nonneg_rolling_fmean) auto
  have l: "nonneg_or_nan ?l"
    unfolding rsi_avg_loss_def using assms(1) rsi_loss_nonneg
    by (intro nonneg_rolling_fmean) auto
  have r: "calculate_rsi data period ! i = rsi_of ?g ?l"
    using assms(1) by (rule calculate_rsi_nth)
  have a: "?l = Fin 0 \<Longrightarrow> fgt ?g (Fin 0) \<Longrightarrow> rsi_of ?g ?l = Fin 100"
    by (cases ?g) (auto simp: rsi_of_def Let_def fsub_def fgt_def signed_inf_def)
  have b: "?l = Fin 0 \<Longrightarrow> ?g = Fin 0 \<Longrightarrow> rsi_of ?g ?l = NaN"
    by (simp add: rsi_of_def Let_def fsub_def)
  from rsi_of_range [OF g l] have c:
    "rsi_of ?g ?l \<noteq> NaN \<longrightarrow> fle (Fin 0) (rsi_of ?g ?l) \<and> fle (rsi_of ?g ?l) (Fin 100)"
    "rsi_of ?g ?l \<noteq> PInf" "rsi_of ?g ?l \<noteq> NInf"
    by (cases "rsi_of ?g ?l"; simp)+
  show ?thesis unfolding r using a b c by blast
qed

lemmas rsi_eval =
  rsi_avg_gain_def rsi_avg_loss_def rolling_nth rsi_gain_def rsi_loss_def diff_def shift1_def
  upt_rec fmean_def fsum_def fsub_def fillna_zero_def where_or_zero_def isna_def fgt_def

theorem rsi_edge_cases_witness:
  "15 < length rising_closes
   \<and> rsi_avg_gain rising_closes 14 ! 15 = Fin 1
   \<and> rsi_avg_loss rising_closes 14 ! 15 = Fin 0
   \<and> calculate_rsi rising_closes 14 ! 15 = Fin 100
   \<and> rsi_avg_gain flat_closes 14 ! 15 = Fin 0
   \<and> rsi_avg_loss flat_closes 14 ! 15 = Fin 0
   \<and> calculate_rsi flat_closes 14 ! 15 = NaN"
proof -
  have g: "rsi_avg_gain rising_closes 14 ! 15 = Fin 1"
    by (simp add: rising_closes_def rsi_eval)
  have l: "rsi_avg_loss rising_closes 14 ! 15 = Fin 0"
    by (simp add: rising_closes_def rsi_eval)
  have g0: "rsi_avg_gain flat_closes 14 ! 15 = Fin 0"
    by (simp add: flat_closes_def rsi_eval numeral_eq_Suc)
  have l0: "rsi_avg_loss flat_closes 14 ! 15 = Fin 0"
    by (simp add: flat_closes_def rsi_eval numeral_eq_Suc)
  have n: "15 < length rising_closes" "15 < length flat_closes"
    by (simp_all add: rising_closes_def flat_closes_def)
  show ?thesis
    using rsi_edge_cases [of 15 rising_closes 14] rsi_edge_cases [of 15 flat_closes 14]
      g l g0 l0 n
    by (simp add: fgt_def)
qed

section \<open>Moving average crossovers\<close>

lemma any_true_tail:
  "any_true (tail n xs) \<longleftrightarrow> (\<exists>i. length xs - n \<le> i \<and> i < length xs \<and> xs ! i)"
proof -
  have "True \<in> set (drop k xs) \<longleftrightarrow> (\<exists>i. k \<le> i \<and> i < length xs \<and> xs ! i)" for k
  proof
    assume "True \<in> set (drop k xs)"
    then obtain j where "j < length (drop k xs)" "drop k xs ! j = True"
      by (auto simp: in_set_conv_nth)
    then have "k \<le> k + j \<and> k + j < length xs \<and> xs ! (k + j)" by auto
    then show "\<exists>i. k \<le> i \<and> i < length xs \<and> xs ! i" by blast
  next
    assume "\<exists>i. k \<le> i \<and> i < length xs \<and> xs ! i"
    then obtain i where i: "k \<le> i" "i < length xs" "xs ! i" by blast
    then have "drop k xs ! (i - k) = True" "i - k < length (drop k xs)" by auto
    then show "True \<in> set (drop k xs)" by (metis nth_mem)
  qed
  then show ?thesis by (simp add: any_true_def tail_def)
qed

lemma length_identify_crossover [simp]:
  "length (identify_crossover s1 s2) = min (length s1) (length s2)"
  by (simp add: identify_crossover_def)

lemma length_calculate_sma [simp]: "length (calculate_sma xs w) = length xs"
  by (simp add: calculate_sma_def)

lemma length_col [simp]: "length (col f df) = length df"
  by (simp add: col_def)

lemma length_Golden_Cross [simp]:
  "length (Golden_Cross (identify_golden_death_cross df)) = length df"
  by (simp add: identify_golden_death_cross_def Let_def)

lemma length_Death_Cross [simp]:
  "length (Death_Cross (identify_golden_death_cross df)) = length df"
  by (simp add: identify_golden_death_cross_def Let_def)

text \<open>
  C8. \<open>check_ma_crossover\<close> answers \<open>none\<close> on a frame of fewer than 200 bars.
  Otherwise it answers \<open>golden_cross\<close> if a golden-cross flag is set at one of the last
  five positions, else \<open>death_cross\<close> if a death-cross flag is set there, else
  \<open>none\<close>: where both occur among the last five bars, the golden cross is reported.
\<close>

theorem ma_crossover_rule:
  "check_ma_crossover df =
     (if length df < 200 then ''none''
      else if (\<exists>i. length df - 5 \<le> i \<and> i < length df
                  \<and> Golden_Cross (identify_golden_death_cross df) ! i) then ''golden_cross''
      else if (\<exists>i. length df - 5 \<le> i \<and> i < length df
                  \<and> Death_Cross (identify_golden_death_cross df) ! i) then ''death_cross''
      else ''none'')"
  unfolding check_ma_crossover_def Let_def any_true_tail length_Golden_Cross length_Death_Cross
  by (rule refl)

lemma foldl_fadd_Fin: "foldl fadd (Fin a) (map Fin xs) = Fin (a + sum_list xs)"
  by (induction xs arbitrary: a) (auto simp: algebra_simps)

lemma fsum_Fin: "fsum (map Fin xs) = Fin (sum_list xs)"
  by (simp add: fsum_def foldl_fadd_Fin)

lemma NaN_notin_Fin [simp]: "NaN \<notin> set (map Fin xs)"
  by auto

lemma sma_Fin_nth:
  assumes "i < length xs" "w \<le> i + 1"
  shows "calculate_sma (map Fin xs) w ! i =
           fdiv (Fin (sum_list (take w (drop (i + 1 - w) xs)))) (Fin (real w))"
proof -
  let ?win = "take w (drop (i + 1 - w) xs)"
  have len: "length ?win = w" using assms by auto
  have win: "take w (drop (i + 1 - w) (map Fin xs)) = map Fin ?win"
    by (simp add: take_map drop_map)
  have "calculate_sma (map Fin xs) w ! i = fmean (map Fin ?win)"
    using assms unfolding calculate_sma_def
    by (simp only: rolling_nth length_map win Let_def NaN_notin_Fin if_False) simp
  also have "\<dots> = fdiv (Fin (sum_list ?win)) (Fin (real w))"
    unfolding fmean_def fsum_Fin length_map len ..
  finally show ?thesis .
qed

lemma col_Fin: "col f df = map Fin (map f df)"
  by (simp add: col_def)

lemma shift1_nth: "i < length xs \<Longrightarrow> shift1 xs ! i = (if i = 0 then NaN else xs ! (i - 1))"
  by (cases i) (auto simp: shift1_def nth_butlast)

lemma identify_crossover_nth:
  assumes "i < length s1" "i < length s2"
  shows "identify_crossover s1 s2 ! i =
     (let a = s1 ! i; b = s2 ! i; pa = shift1 s1 ! i; pb = shift1 s2 ! i
      in if flt a b \<and> fge pa pb then - 1 else if fgt a b \<and> fle pa pb then 1 else 0)"
  using assms by (simp add: identify_crossover_def Let_def)

lemma closes_cross_both: "map Close cross_both_frame = replicate 200 100 @ [101, 0]"
  by (simp add: cross_both_frame_def flat_bar_def)

lemma length_cross_both [simp]: "length cross_both_frame = 202"
  by (simp add: cross_both_frame_def)

lemma sma_cross_both:
  "calculate_sma (col Close cross_both_frame) 50 ! 199 = Fin 100"
  "calculate_sma (col Close cross_both_frame) 200 ! 199 = Fin 100"
  "calculate_sma (col Close cross_both_frame) 50 ! 200 = Fin (5001 / 50)"
  "calculate_sma (col Close cross_both_frame) 200 ! 200 = Fin (20001 / 200)"
  "calculate_sma (col Close cross_both_frame) 50 ! 201 = Fin (4901 / 50)"
  "calculate_sma (col Close cross_both_frame) 200 ! 201 = Fin (19901 / 200)"
  unfolding col_Fin closes_cross_both
  using sma_Fin_nth [of 199 "replicate 200 100 @ [101, 0]" 50]
    sma_Fin_nth [of 199 "replicate 200 100 @ [101, 0]" 200]
    sma_Fin_nth [of 200 "replicate 200 100 @ [101, 0]" 50]
    sma_Fin_nth [of 200 "replicate 200 100 @ [101, 0]" 200]
    sma_Fin_nth [of 201 "replicate 200 100 @ [101, 0]" 50]
    sma_Fin_nth [of 201 "replicate 200 100 @ [101, 0]" 200]
  by (simp_all add: sum_list_replicate)

lemma golden_at_200: "Golden_Cross (identify_golden_death_cross cross_both_frame) ! 200"
  by (simp add: identify_golden_death_cross_def Let_def identify_crossover_nth shift1_nth
      sma_cross_both fgt_def fge_def)

lemma death_at_201: "Death_Cross (identify_golden_death_cross cross_both_frame) ! 201"
  by (simp add: identify_golden_death_cross_def Let_def identify_crossover_nth shift1_nth
      sma_cross_both fgt_def fge_def)

theorem ma_crossover_rule_witness:
  "Golden_Cross (identify_golden_death_cross cross_both_frame) ! 200
   \<and> Death_Cross (identify_golden_death_cross cross_both_frame) ! 201
   \<and> check_ma_crossover cross_both_frame = ''golden_cross''
   \<and> check_ma_crossover (take 199 cross_both_frame) = ''none''"
proof -
  have "\<exists>i. length cross_both_frame - 5 \<le> i \<and> i < length cross_both_frame
          \<and> Golden_Cross (identify_golden_death_cross cross_both_frame) ! i"
    using golden_at_200 by (intro exI [of _ 200]) simp
  then show ?thesis
    using ma_crossover_rule [of cross_both_frame] ma_crossover_rule [of "take 199 cross_both_frame"]
      golden_at_200 death_at_201
    by simp
qed



section \<open>Scanning one ticker and many\<close>

lemma iloc_neg_last:
  "xs \<noteq> [] \<Longrightarrow> iloc_neg xs 1 = Inr (last xs)"
  "xs \<noteq> [] \<Longrightarrow> iloc_neg xs (Suc 0) = Inr (last xs)"
  by (simp_all add: iloc_neg_def last_conv_nth Suc_leI)

lemma calculate_52_week_high_low_nonempty:
  "df \<noteq> [] \<Longrightarrow> \<exists>stats. calculate_52_week_high_low df = Inr stats"
proof -
  assume "df \<noteq> []"
  then have "iloc_neg (col Close df) 1 = Inr (last (col Close df))"
    by (intro iloc_neg_last) (simp add: col_def)
  then show ?thesis by (simp add: calculate_52_week_high_low_def Let_def)
qed

lemma check_near_52w_high_eq:
  "calculate_52_week_high_low df = Inr stats \<Longrightarrow>
   check_near_52w_high df threshold = Inr (fle (fabs (pct_from_high stats)) (Fin threshold))"
  by (simp add: check_near_52w_high_def)

lemma scan_ticker_fetch_error: "fetch t = Inl e \<Longrightarrow> scan_ticker fetch t = None"
  by (simp add: scan_ticker_def scan_ticker_body_def)

lemma scan_ticker_short:
  "fetch t = Inr df \<Longrightarrow> length df < 50 \<Longrightarrow> scan_ticker fetch t = None"
  by (simp add: scan_ticker_def scan_ticker_body_def)

lemma scan_ticker_Some:
  assumes "fetch t = Inr df" "50 \<le> length df" "calculate_52_week_high_low df = Inr stats"
  shows "scan_ticker fetch t = Some
     \<lparr>ticker = t,
      current_price = last (col Close df),
      relative_volume = calculate_relative_volume df 20,
      volume_surge = check_volume_surge df 2,
      rsi_signal = check_rsi_signal df 30 70,
      ma_crossover = check_ma_crossover df,
      near_52w_high = fle (fabs (pct_from_high stats)) (Fin 5),
      consolidation = check_consolidation_breakout df,
      price_change_5d = Some (close_change df 6),
      price_change_20d = Some (close_change df 21),
      rsi_value = Some (last (calculate_rsi (col Close df) 14))\<rparr>"
proof -
  have ne: "df \<noteq> []" "col Close df \<noteq> []" using assms(2) by (auto simp: col_def)
  have "calculate_rsi (col Close df) 14 \<noteq> []"
    using ne by (metis length_calculate_rsi length_0_conv)
  then show ?thesis
    using assms ne
    by (simp add: scan_ticker_def scan_ticker_body_def iloc_neg_last check_near_52w_high_eq
        Let_def)
qed

lemma scan_ticker_scannable: "scan_ticker fetch t \<noteq> None \<longleftrightarrow> scannable fetch t"
proof (cases "fetch t")
  case (Inl e)
  then show ?thesis by (simp add: scan_ticker_fetch_error scannable_def)
next
  case (Inr df)
  show ?thesis
  proof (cases "length df < 50")
    case True
    then show ?thesis using Inr by (simp add: scan_ticker_short scannable_def)
  next
    case False
    then have "df \<noteq> []" by auto
    then obtain stats where "calculate_52_week_high_low df = Inr stats"
      using calculate_52_week_high_low_nonempty by blast
    then show ?thesis using Inr False scan_ticker_Some [of fetch t df stats]
      by (simp add: scannable_def)
  qed
qed

lemma scan_ticker_ticker: "scan_ticker fetch t = Some r \<Longrightarrow> ticker r = t"
proof (cases "fetch t")
  case (Inl e)
  assume "scan_ticker fetch t = Some r"
  then show ?thesis using Inl by (simp add: scan_ticker_fetch_error)
next
  case (Inr df)
  assume r: "scan_ticker fetch t = Some r"
  then have len: "50 \<le> length df" using Inr scan_ticker_short [of fetch t df] by force
  then have "df \<noteq> []" by auto
  then obtain stats where "calculate_52_week_high_low df = Inr stats"
    using calculate_52_week_high_low_nonempty by blast
  from scan_ticker_Some [of fetch t df stats] Inr len this r show ?thesis by auto
qed

lemma scan_loop_eq:
  "scan_loop fetch ts results = results @ List.map_filter (scan_ticker fetch) ts"
  by (induction ts arbitrary: results) (auto simp: List.map_filter_simps split: option.splits)

lemma scan_multiple_tickers_eq:
  "scan_multiple_tickers fetch ts = List.map_filter (scan_ticker fetch) ts"
  by (simp add: scan_multiple_tickers_def scan_loop_eq Let_def)

lemma map_ticker_map_filter:
  "map ticker (List.map_filter (scan_ticker fetch) ts) = filter (scannable fetch) ts"
proof (induction ts)
  case Nil
  then show ?case by (simp add: List.map_filter_simps)
next
  case (Cons t ts)
  show ?case
  proof (cases "scan_ticker fetch t")
    case None
    then have "\<not> scannable fetch t" using scan_ticker_scannable [of fetch t] by simp
    then show ?thesis using None Cons by (simp add: List.map_filter_simps)
  next
    case (Some r)
    then have "scannable fetch t" "ticker r = t"
      using scan_ticker_scannable [of fetch t] scan_ticker_ticker by auto
    then show ?thesis using Some Cons by (simp add: List.map_filter_simps)
  qed
qed

text \<open>
  C6. \<open>scan_multiple_tickers\<close> returns a list of records for every ticker list and
  every behaviour of the fetcher; no exception leaves it, since \<open>scan_ticker\<close> turns
  every exception of its body into \<open>None\<close>. A ticker is omitted exactly when its fetch
  raises or returns fewer than 50 bars, the records that remain are one per other ticker
  in the order of the ticker list, and a scan in which every ticker fails returns the
  empty result. (The function is taken with \<open>filters\<close> at its default.)
\<close>

theorem scan_multiple_tickers_total:
  "scan_multiple_tickers fetch tickers = List.map_filter (scan_ticker fetch) tickers
   \<and> map ticker (scan_multiple_tickers fetch tickers) = filter (scannable fetch) tickers
   \<and> (\<forall>t. scan_ticker fetch t = None \<longleftrightarrow> \<not> scannable fetch t)
   \<and> ((\<forall>t\<in>set tickers. \<not> scannable fetch t) \<longrightarrow> scan_multiple_tickers fetch tickers = [])"
proof -
  have a: "scan_multiple_tickers fetch tickers = List.map_filter (scan_ticker fetch) tickers"
    by (rule scan_multiple_tickers_eq)
  have b: "map ticker (scan_multiple_tickers fetch tickers) = filter (scannable fetch) tickers"
    unfolding a by (rule map_ticker_map_filter)
  have c: "\<forall>t. scan_ticker fetch t = None \<longleftrightarrow> \<not> scannable fetch t"
    using scan_ticker_scannable [of fetch] by blast
  have d: "(\<forall>t\<in>set tickers. \<not> scannable fetch t) \<longrightarrow> scan_multiple_tickers fetch tickers = []"
  proof
    assume "\<forall>t\<in>set tickers. \<not> scannable fetch t"
    then have "filter (scannable fetch) tickers = []" by (simp add: filter_empty_conv)
    then show "scan_multiple_tickers fetch tickers = []" using b by simp
  qed
  show ?thesis using a b c d by blast
qed

lemma length_frames [simp]:
  "length surge_frame = 50" "length five_below_frame = 50"
  by (simp_all add: surge_frame_def five_below_frame_def)

theorem scan_multiple_tickers_total_witness:
  "map ticker (scan_multiple_tickers
      (serve [(''AAA'', surge_frame), (''BBB'', five_below_frame), (''NEW'', take 49 surge_frame)])
      [''AAA'', ''BAD'', ''NEW'', ''BBB'']) = [''AAA'', ''BBB'']
   \<and> scan_multiple_tickers (serve [(''NEW'', take 49 surge_frame)]) [''BAD'', ''NEW''] = []"
proof -
  let ?f = "serve [(''AAA'', surge_frame), (''BBB'', five_below_frame), (''NEW'', take 49 surge_frame)]"
  let ?g = "serve [(''NEW'', take 49 surge_frame)]"
  have "map ticker (scan_multiple_tickers ?f [''AAA'', ''BAD'', ''NEW'', ''BBB''])
          = filter (scannable ?f) [''AAA'', ''BAD'', ''NEW'', ''BBB'']"
    using scan_multiple_tickers_total [of ?f "[''AAA'', ''BAD'', ''NEW'', ''BBB'']"] by blast
  moreover have "(\<forall>t\<in>set [''BAD'', ''NEW'']. \<not> scannable ?g t)
                   \<longrightarrow> scan_multiple_tickers ?g [''BAD'', ''NEW''] = []"
    using scan_multiple_tickers_total [of ?g "[''BAD'', ''NEW'']"] by blast
  ultimately show ?thesis by (simp add: scannable_def serve_def)
qed


section \<open>Proximity to the 52-week high\<close>

lemma foldl_fmax2_Fin: "foldl fmax2 (Fin a) (map Fin xs) = Fin (foldl max a xs)"
  by (induction xs arbitrary: a) (auto simp: fmax2_def max_def)

lemma foldl_fmin2_Fin: "foldl fmin2 (Fin a) (map Fin xs) = Fin (foldl min a xs)"
  by (induction xs arbitrary: a) (auto simp: fmin2_def min_def)

lemma foldl_max_Max: "foldl max (a::real) xs = Max (set (a # xs))"
proof -
  have "(\<lambda>x s. max s x) = (max :: real \<Rightarrow> real \<Rightarrow> real)" by (intro ext) (rule max.commute)
  then have "foldl max a xs = fold max xs a" by (simp add: foldl_conv_fold)
  also have "\<dots> = Max (set (a # xs))" by (rule Max.set_eq_fold [symmetric])
  finally show ?thesis .
qed

lemma foldl_min_Min: "foldl min (a::real) xs = Min (set (a # xs))"
proof -
  have "(\<lambda>x s. min s x) = (min :: real \<Rightarrow> real \<Rightarrow> real)" by (intro ext) (rule min.commute)
  then have "foldl min a xs = fold min xs a" by (simp add: foldl_conv_fold)
  also have "\<dots> = Min (set (a # xs))" by (rule Min.set_eq_fold [symmetric])
  finally show ?thesis .
qed

lemma fmax_list_Fin: "xs \<noteq> [] \<Longrightarrow> fmax_list (map Fin xs) = Fin (Max (set xs))"
  by (cases xs) (simp_all add: foldl_fmax2_Fin foldl_max_Max)

lemma fmin_list_Fin: "xs \<noteq> [] \<Longrightarrow> fmin_list (map Fin xs) = Fin (Min (set xs))"
  by (cases xs) (simp_all add: foldl_fmin2_Fin foldl_min_Min)

lemma five_below_cols:
  "map High five_below_frame = replicate 49 100 @ [100]"
  "map Low five_below_frame = replicate 49 100 @ [95]"
  "map Close five_below_frame = replicate 49 100 @ [95]"
  by (simp_all add: five_below_frame_def flat_bar_def)

lemma five_below_stats:
  "calculate_52_week_high_low five_below_frame =
     Inr \<lparr>high_52w = Fin 100, low_52w = Fin 95, stats_current_price = Fin 95,
          pct_from_high = Fin (- 5), pct_from_low = Fin 0, stats_near_52w_high = False\<rparr>"
proof -
  have h: "fmax_list (col High five_below_frame) = Fin 100"
    unfolding col_Fin five_below_cols by (subst fmax_list_Fin) simp_all
  have l: "fmin_list (col Low five_below_frame) = Fin 95"
    unfolding col_Fin five_below_cols by (subst fmin_list_Fin) simp_all
  have c: "iloc_neg (col Close five_below_frame) (Suc 0) = Inr (Fin 95)"
    unfolding col_Fin five_below_cols by (subst iloc_neg_last) simp_all
  have t: "tail 50 five_below_frame = five_below_frame" by (simp add: tail_def)
  show ?thesis
    by (simp add: calculate_52_week_high_low_def Let_def t h l c fsub_def fgt_def)
qed

text \<open>
  C3, as the code has it. The flag \<open>near_52w_high\<close> of a scan record is true exactly
  when the absolute value of \<open>pct_from_high\<close> is at most 5, where \<open>pct_from_high\<close> is
  \<open>(close - high) / high * 100\<close> for the last close and the highest high of the last
  252 bars (of all bars if there are fewer). The rule bounds both sides and includes the
  bound. The one-sided rule \<open>pct_from_high > - 5\<close> is the entry \<open>near_52w_high\<close> of
  the statistics of \<open>calculate_52_week_high_low\<close>, which the scan does not read.
\<close>

theorem scan_near_52w_high_rule:
  assumes "fetch t = Inr df" and "scan_ticker fetch t = Some r"
  shows "\<exists>stats. calculate_52_week_high_low df = Inr stats
           \<and> high_52w stats = fmax_list (col High (tail (min 252 (length df)) df))
           \<and> pct_from_high stats =
               fmul (fdiv (fsub (last (col Close df)) (high_52w stats)) (high_52w stats)) (Fin 100)
           \<and> stats_near_52w_high stats = fgt (pct_from_high stats) (Fin (- 5))
           \<and> near_52w_high r = fle (fabs (pct_from_high stats)) (Fin 5)"
proof -
  have len: "50 \<le> length df"
    using assms scan_ticker_short [of fetch t df] by force
  then have ne: "df \<noteq> []" by auto
  then obtain stats where stats: "calculate_52_week_high_low df = Inr stats"
    using calculate_52_week_high_low_nonempty by blast
  have c: "iloc_neg (col Close df) 1 = Inr (last (col Close df))"
    using ne by (intro iloc_neg_last) (simp add: col_def)
  have m: "(if length df < 252 then length df else 252) = min 252 (length df)" by simp
  from stats have
    "high_52w stats = fmax_list (col High (tail (min 252 (length df)) df))"
    "pct_from_high stats =
       fmul (fdiv (fsub (last (col Close df)) (high_52w stats)) (high_52w stats)) (Fin 100)"
    "stats_near_52w_high stats = fgt (pct_from_high stats) (Fin (- 5))"
    unfolding calculate_52_week_high_low_def Let_def c m by auto
  moreover have "near_52w_high r = fle (fabs (pct_from_high stats)) (Fin 5)"
    using scan_ticker_Some [of fetch t df stats] assms len stats by auto
  ultimately show ?thesis using stats by blast
qed

theorem scan_near_52w_high_rule_witness:
  "serve [(''T'', five_below_frame)] ''T'' = Inr five_below_frame
   \<and> map_option near_52w_high (scan_ticker (serve [(''T'', five_below_frame)]) ''T'') = Some True
   \<and> fle (fabs (Fin (- 5))) (Fin 5)"
proof -
  let ?f = "serve [(''T'', five_below_frame)]"
  have f: "?f ''T'' = Inr five_below_frame" by (simp add: serve_def)
  then have "scannable ?f ''T''" by (simp add: scannable_def)
  then obtain r where r: "scan_ticker ?f ''T'' = Some r"
    using scan_ticker_scannable [of ?f "''T''"] by auto
  from scan_near_52w_high_rule [OF f r] have "near_52w_high r"
    by (auto simp: five_below_stats)
  then show ?thesis using f r by simp
qed

text \<open>
  The one-sided rule fails for the scan at five percent below the high: the scan's flag
  is set, while \<open>pct_from_high\<close> is \<open>- 5\<close>, which is not greater than \<open>- 5\<close>.
\<close>

theorem scan_near_52w_high_counterexample:
  "map_option near_52w_high (scan_ticker (serve [(''T'', five_below_frame)]) ''T'') = Some True
   \<and> map_sum id pct_from_high (calculate_52_week_high_low five_below_frame) = Inr (Fin (- 5))
   \<and> \<not> fgt (Fin (- 5)) (Fin (- 5))
   \<and> map_sum id stats_near_52w_high (calculate_52_week_high_low five_below_frame) = Inr False"
proof -
  let ?f = "serve [(''T'', five_below_frame)]"
  have f: "?f ''T'' = Inr five_below_frame" by (simp add: serve_def)
  have "map_option near_52w_high (scan_ticker ?f ''T'') = Some True"
    using scan_ticker_Some [of ?f "''T''" five_below_frame, OF f _ five_below_stats]
    by simp
  then show ?thesis by (simp add: five_below_stats fgt_def)
qed


section \<open>Rolling extremes and consolidation\<close>

lemma rolling_Fin_window:
  assumes "i < length xs" "w \<le> i + 1" "0 < w"
  shows "rolling w agg (map Fin xs) ! i = agg (map Fin (take w (drop (i + 1 - w) xs)))"
    and "take w (drop (i + 1 - w) xs) \<noteq> []"
proof -
  let ?win = "take w (drop (i + 1 - w) xs)"
  have win: "take w (drop (i + 1 - w) (map Fin xs)) = map Fin ?win"
    by (simp add: take_map drop_map)
  show "rolling w agg (map Fin xs) ! i = agg (map Fin ?win)"
    using assms
    by (simp only: rolling_nth length_map win Let_def NaN_notin_Fin if_False) simp
  have "length ?win = w" using assms by auto
  then show "?win \<noteq> []" using assms(3) by auto
qed

lemma rolling_max_Fin_nth:
  assumes "i < length xs" "w \<le> i + 1" "0 < w"
  shows "rolling w fmax_list (map Fin xs) ! i = Fin (Max (set (take w (drop (i + 1 - w) xs))))"
  using rolling_Fin_window [OF assms] by (simp add: fmax_list_Fin)

lemma rolling_min_Fin_nth:
  assumes "i < length xs" "w \<le> i + 1" "0 < w"
  shows "rolling w fmin_list (map Fin xs) ! i = Fin (Min (set (take w (drop (i + 1 - w) xs))))"
  using rolling_Fin_window [OF assms] by (simp add: fmin_list_Fin)

lemma length_detect_consolidation [simp]:
  "length (detect_consolidation df w th) = length df"
  by (simp add: detect_consolidation_def Let_def)

lemma detect_consolidation_nth:
  assumes "i < length df"
  shows "detect_consolidation df w th ! i =
     (let h = rolling w fmax_list (col High df) ! i;
          l = rolling w fmin_list (col Low df) ! i
      in flt (fmul (fdiv (fsub h l) (fdiv (fadd h l) (Fin 2))) (Fin 100)) (Fin (th * 100)))"
  using assms by (simp add: detect_consolidation_def Let_def)

lemma any_true_nth: "any_true xs \<longleftrightarrow> (\<exists>i<length xs. xs ! i)"
  by (auto simp: any_true_def in_set_conv_nth)

lemma any_true_butlast_tail:
  "any_true (butlast (tail n xs)) \<longleftrightarrow> (\<exists>i. length xs - n \<le> i \<and> i + 1 < length xs \<and> xs ! i)"
proof
  assume "any_true (butlast (tail n xs))"
  then obtain j where j: "j < length (butlast (tail n xs))" "butlast (tail n xs) ! j"
    by (auto simp: any_true_nth)
  then have "j + 1 < length (drop (length xs - n) xs)" by (simp add: tail_def)
  then have "length xs - n + j + 1 < length xs" by simp
  moreover have "xs ! (length xs - n + j)"
    using j by (simp add: nth_butlast tail_def)
  ultimately show "\<exists>i. length xs - n \<le> i \<and> i + 1 < length xs \<and> xs ! i"
    by (intro exI [of _ "length xs - n + j"]) simp
next
  assume "\<exists>i. length xs - n \<le> i \<and> i + 1 < length xs \<and> xs ! i"
  then obtain i where i: "length xs - n \<le> i" "i + 1 < length xs" "xs ! i" by blast
  let ?j = "i - (length xs - n)"
  have "?j < length (butlast (tail n xs))" using i by (simp add: tail_def)
  moreover from this have "butlast (tail n xs) ! ?j" using i by (simp add: nth_butlast tail_def)
  ultimately show "any_true (butlast (tail n xs))" by (auto simp: any_true_nth)
qed

lemma check_consolidation_breakout_eq:
  assumes "10 < length df"
  shows "check_consolidation_breakout df =
     \<lparr>in_consolidation = detect_consolidation df 20 0.05 ! (length df - 1),
      breaking_out =
        ((\<exists>i. length df - 10 \<le> i \<and> i + 1 < length df \<and> detect_consolidation df 20 0.05 ! i)
         \<and> \<not> detect_consolidation df 20 0.05 ! (length df - 1)
         \<and> fgt (close_change df 5) (Fin 2))\<rparr>"
proof -
  have "detect_consolidation df 20 0.05 \<noteq> []" using assms by (metis length_detect_consolidation list.size(3) not_less0)
  then have "last (detect_consolidation df 20 0.05) = detect_consolidation df 20 0.05 ! (length df - 1)"
    by (simp add: last_conv_nth)
  then show ?thesis
    using assms
    by (auto simp: check_consolidation_breakout_def Let_def any_true_butlast_tail)
qed


section \<open>The consolidation breakout at two percent\<close>

lemma two_percent_cols:
  "map High two_percent_frame = replicate 49 101 @ [110]"
  "map Low two_percent_frame = replicate 49 99 @ [99]"
  "length two_percent_frame = 50"
  by (simp_all add: two_percent_frame_def quiet_bar_def)

lemma two_percent_consolidation:
  "detect_consolidation two_percent_frame 20 0.05 ! 48"
  "\<not> detect_consolidation two_percent_frame 20 0.05 ! 49"
  unfolding col_Fin
  using rolling_max_Fin_nth [of 48 "map High two_percent_frame" 20]
    rolling_min_Fin_nth [of 48 "map Low two_percent_frame" 20]
    rolling_max_Fin_nth [of 49 "map High two_percent_frame" 20]
    rolling_min_Fin_nth [of 49 "map Low two_percent_frame" 20]
  by (simp_all add: detect_consolidation_nth col_Fin two_percent_cols Let_def fsub_def)

lemma two_percent_change:
  "close_change two_percent_frame 5 = Fin 2"
  "close_change two_percent_frame 6 = Fin 2"
  by (simp_all add: close_change_def Let_def two_percent_frame_def quiet_bar_def nth_append
      fsub_def)

text \<open>
  C5, at the frame where the rule and the code part. The rule: a series breaks out if
  and only if it was consolidating somewhere within the bars from ten back to two back,
  is not consolidating at the last bar, and its close rose by at least two percent from
  five bars ago. This frame was consolidating at the last but one bar, is not
  consolidating at the last bar, and its close is exactly two percent above the close
  five bars ago and above the close at \<open>iloc[-5]\<close>. The code answers that it is not
  breaking out: it compares with \<open>> 2\<close>, under the comment "At least 2% up".
\<close>

theorem breakout_at_exactly_two_percent:
  "check_consolidation_breakout two_percent_frame =
     \<lparr>in_consolidation = False, breaking_out = False\<rparr>
   \<and> detect_consolidation two_percent_frame 20 0.05 ! 48
   \<and> \<not> detect_consolidation two_percent_frame 20 0.05 ! 49
   \<and> close_change two_percent_frame 5 = Fin 2
   \<and> close_change two_percent_frame 6 = Fin 2
   \<and> fge (Fin 2) (Fin 2) \<and> \<not> fgt (Fin 2) (Fin 2)"
  using check_consolidation_breakout_eq [of two_percent_frame] two_percent_consolidation
  by (simp add: two_percent_cols two_percent_change fge_def fgt_def)


section \<open>Breakout candidates\<close>

lemma sorts_descending_stable: "sorts_descending stable_indexer"
  unfolding sorts_descending_def stable_indexer_def
proof (intro allI conjI)
  fix keys :: "int list"
  show "mset (sort_key (\<lambda>i. - (keys ! i)) [0..<length keys]) = mset [0..<length keys]"
    by simp
  have "sorted (map (\<lambda>i. - (keys ! i)) (sort_key (\<lambda>i. - (keys ! i)) [0..<length keys]))"
    by (rule sorted_sort_key)
  then show "sorted_wrt (\<lambda>i j. keys ! j \<le> keys ! i) (sort_key (\<lambda>i. - (keys ! i)) [0..<length keys])"
    by (simp add: sorted_map)
qed

lemma take_rows_sorted:
  assumes "sorts_descending srt"
  shows "\<exists>out. take_rows (srt (map key rs)) rs = Inr out
           \<and> mset out = mset rs
           \<and> sorted_wrt (\<lambda>a b. key b \<le> key a) out"
proof -
  let ?idx = "srt (map key rs)"
  from assms have c: "mset ?idx = mset [0..<length (map key rs)]
      \<and> sorted_wrt (\<lambda>i j. map key rs ! j \<le> map key rs ! i) ?idx"
    unfolding sorts_descending_def by (rule spec)
  then have m: "mset ?idx = mset [0..<length rs]" by simp
  from c have s: "sorted_wrt (\<lambda>i j. map key rs ! j \<le> map key rs ! i) ?idx" by simp
  have "set ?idx = set [0..<length rs]" using m by (rule mset_eq_setD)
  then have inb: "\<And>i. i \<in> set ?idx \<Longrightarrow> i < length rs" by simp
  then have t: "take_rows ?idx rs = Inr (map (\<lambda>i. rs ! i) ?idx)"
    by (simp add: take_rows_def list_all_iff)
  have "mset (map (\<lambda>i. rs ! i) ?idx) = image_mset (\<lambda>i. rs ! i) (mset ?idx)" by simp
  also have "\<dots> = image_mset (\<lambda>i. rs ! i) (mset [0..<length rs])" by (simp only: m)
  also have "\<dots> = mset (map (\<lambda>i. rs ! i) [0..<length rs])" by simp
  also have "\<dots> = mset rs" by (simp only: map_nth)
  finally have p: "mset (map (\<lambda>i. rs ! i) ?idx) = mset rs" .
  have "sorted_wrt (\<lambda>i j. key (rs ! j) \<le> key (rs ! i)) ?idx"
  proof (rule sorted_wrt_mono_rel [OF _ s])
    fix i j assume "i \<in> set ?idx" "j \<in> set ?idx" "map key rs ! j \<le> map key rs ! i"
    then show "key (rs ! j) \<le> key (rs ! i)" using inb by simp
  qed
  then have "sorted_wrt (\<lambda>a b. key b \<le> key a) (map (\<lambda>i. rs ! i) ?idx)"
    by (simp only: sorted_wrt_map)
  then show ?thesis using t p by blast
qed

lemma flag_row_fields [simp]:
  "ticker (flag_row s) = ticker s"
  "relative_volume (flag_row s) = relative_volume s"
  "volume_surge (flag_row s) = volume_surge s"
  "ma_crossover (flag_row s) = ma_crossover s"
  "near_52w_high (flag_row s) = near_52w_high s"
  "consolidation (flag_row s) = consolidation s"
  "is_breaking_out (flag_row s) = breaking_out (consolidation s)"
  by (simp_all add: flag_row_def signals.defs flagged.defs)

lemma score_row_fields [simp]:
  "ticker (score_row s) = ticker s"
  "volume_surge (score_row s) = volume_surge s"
  "ma_crossover (score_row s) = ma_crossover s"
  "near_52w_high (score_row s) = near_52w_high s"
  "consolidation (score_row s) = consolidation s"
  "is_breaking_out (score_row s) = breaking_out (consolidation s)"
  "breakout_score (score_row s) = composite_score (flag_row s)"
  by (simp_all add: score_row_def flag_row_def signals.defs flagged.defs candidate.defs)

lemma scored_candidates_eq:
  "scored_candidates df = map score_row (filter (\<lambda>s. is_candidate (flag_row s)) df)"
  by (simp add: scored_candidates_def Let_def filter_map comp_def score_row_def flag_row_def)



section \<open>The example frames under the scan\<close>

lemma fmean_Fin: "fmean (map Fin xs) = fdiv (Fin (sum_list xs)) (Fin (real (length xs)))"
  by (simp add: fmean_def fsum_Fin)

lemma tail_butlast_Fin:
  "tail n (butlast (map Fin ys)) = map Fin (tail n (butlast ys))"
  by (simp add: tail_def drop_map flip: map_butlast)

lemma relative_volume_Fin:
  assumes "period < length df"
  shows "calculate_relative_volume df period =
     (let w = tail period (butlast (map Volume df));
          avg = fdiv (Fin (sum_list w)) (Fin (real (length w)))
      in if avg = Fin 0 then None else Some (fdiv (Fin (Volume (last df))) avg))"
proof -
  have ne: "df \<noteq> []" using assms by auto
  have "fmean (tail period (butlast (col Volume df)))
          = fdiv (Fin (sum_list (tail period (butlast (map Volume df)))))
                 (Fin (real (length (tail period (butlast (map Volume df))))))"
    unfolding col_Fin tail_butlast_Fin fmean_Fin ..
  moreover have "last (col Volume df) = Fin (Volume (last df))"
    using ne by (simp add: col_def last_map)
  ultimately show ?thesis
    using assms by (simp add: calculate_relative_volume_def Let_def)
qed

lemma seven_cols:
  "map High seven_frame = replicate 200 101 @ [106]"
  "map Low seven_frame = replicate 200 99 @ [99]"
  "map Close seven_frame = replicate 200 100 @ [103]"
  "map Volume seven_frame = replicate 200 1 @ [1]"
  "last seven_frame = \<lparr>Open = 100, High = 106, Low = 99, Close = 103, Volume = 1\<rparr>"
  "length seven_frame = 201"
  by (simp_all add: seven_frame_def quiet_bar_def)

lemma seven_relative_volume: "calculate_relative_volume seven_frame 20 = Some (Fin 1)"
  using relative_volume_Fin [of 20 seven_frame]
  by (simp add: seven_cols tail_def fmean_Fin Let_def sum_list_replicate)

lemma seven_volume_surge: "\<not> check_volume_surge seven_frame 2"
  by (simp add: check_volume_surge_def seven_relative_volume fge_def)

lemma seven_stats:
  "calculate_52_week_high_low seven_frame =
     Inr \<lparr>high_52w = Fin 106, low_52w = Fin 99, stats_current_price = Fin 103,
          pct_from_high = Fin (- 150 / 53), pct_from_low = Fin (400 / 99),
          stats_near_52w_high = True\<rparr>"
proof -
  have h: "fmax_list (col High seven_frame) = Fin 106"
    unfolding col_Fin seven_cols by (subst fmax_list_Fin) simp_all
  have l: "fmin_list (col Low seven_frame) = Fin 99"
    unfolding col_Fin seven_cols by (subst fmin_list_Fin) simp_all
  have c: "iloc_neg (col Close seven_frame) (Suc 0) = Inr (Fin 103)"
    unfolding col_Fin seven_cols by (subst iloc_neg_last) simp_all
  have t: "tail 201 seven_frame = seven_frame" by (simp add: tail_def seven_cols)
  show ?thesis
    by (simp add: calculate_52_week_high_low_def Let_def seven_cols t h l c fsub_def fgt_def)
qed

lemma seven_consolidation:
  "detect_consolidation seven_frame 20 0.05 ! 199"
  "\<not> detect_consolidation seven_frame 20 0.05 ! 200"
  unfolding col_Fin
  using rolling_max_Fin_nth [of 199 "map High seven_frame" 20]
    rolling_min_Fin_nth [of 199 "map Low seven_frame" 20]
    rolling_max_Fin_nth [of 200 "map High seven_frame" 20]
    rolling_min_Fin_nth [of 200 "map Low seven_frame" 20]
  by (simp_all add: detect_consolidation_nth col_Fin seven_cols Let_def fsub_def)

lemma seven_change: "close_change seven_frame 5 = Fin 3"
  by (simp add: close_change_def Let_def seven_frame_def quiet_bar_def nth_append fsub_def)

lemma seven_breakout:
  "check_consolidation_breakout seven_frame = \<lparr>in_consolidation = False, breaking_out = True\<rparr>"
proof -
  have "\<exists>i. length seven_frame - 10 \<le> i \<and> i + 1 < length seven_frame
          \<and> detect_consolidation seven_frame 20 0.05 ! i"
    using seven_consolidation(1) by (intro exI [of _ 199]) (simp add: seven_cols)
  then show ?thesis
    using check_consolidation_breakout_eq [of seven_frame] seven_consolidation(2)
    by (simp add: seven_cols seven_change fgt_def)
qed

lemma sma_seven:
  "calculate_sma (col Close seven_frame) 50 ! 199 = Fin 100"
  "calculate_sma (col Close seven_frame) 200 ! 199 = Fin 100"
  "calculate_sma (col Close seven_frame) 50 ! 200 = Fin (5003 / 50)"
  "calculate_sma (col Close seven_frame) 200 ! 200 = Fin (20003 / 200)"
  unfolding col_Fin seven_cols
  using sma_Fin_nth [of 199 "replicate 200 100 @ [103]" 50]
    sma_Fin_nth [of 199 "replicate 200 100 @ [103]" 200]
    sma_Fin_nth [of 200 "replicate 200 100 @ [103]" 50]
    sma_Fin_nth [of 200 "replicate 200 100 @ [103]" 200]
  by (simp_all add: sum_list_replicate)

lemma seven_crossover: "check_ma_crossover seven_frame = ''golden_cross''"
proof -
  have "Golden_Cross (identify_golden_death_cross seven_frame) ! 200"
    by (simp add: identify_golden_death_cross_def Let_def identify_crossover_nth shift1_nth
        sma_seven fgt_def fge_def seven_cols)
  then have "\<exists>i. length seven_frame - 5 \<le> i \<and> i < length seven_frame
          \<and> Golden_Cross (identify_golden_death_cross seven_frame) ! i"
    by (intro exI [of _ 200]) (simp add: seven_cols)
  then show ?thesis
    unfolding check_ma_crossover_def Let_def any_true_tail length_Golden_Cross
    by (simp add: seven_cols)
qed


section \<open>The score of the candidates\<close>

lemma score_row_rule:
  "breakout_score (score_row s) =
     3 * (if is_breaking_out (score_row s) then 1 else 0)
     + 2 * (if near_52w_high (score_row s) then 1 else 0)
     + 2 * (if volume_surge (score_row s) then 1 else 0)
     + 2 * (if ma_crossover (score_row s) = ''golden_cross'' then 1 else 0)"
  by (simp add: composite_score_def)

lemma find_breakout_candidates_sorted:
  assumes "sorts_descending srt"
  shows "\<exists>out. find_breakout_candidates srt fetch tickers = Inr out
           \<and> mset out = mset (scored_candidates (scan_multiple_tickers fetch tickers))
           \<and> sorted_wrt (\<lambda>a b. breakout_score b \<le> breakout_score a) out"
proof (cases "scan_multiple_tickers fetch tickers = []")
  case True
  then show ?thesis by (simp add: find_breakout_candidates_def scored_candidates_eq)
next
  case False
  from take_rows_sorted [OF assms, of breakout_score
      "scored_candidates (scan_multiple_tickers fetch tickers)"]
  show ?thesis using False by (simp add: find_breakout_candidates_def Let_def)
qed

text \<open>
  C1. Every record that \<open>find_breakout_candidates\<close> returns carries the score 3 times
  \<open>is_breaking_out\<close> plus 2 times \<open>near_52w_high\<close> plus 2 times \<open>volume_surge\<close> plus
  2 times (\<open>ma_crossover\<close> is \<open>golden_cross\<close>), where \<open>is_breaking_out\<close> is the flag
  \<open>breaking_out\<close> of the record's consolidation status; a record that is breaking
  out, near its high, without a volume surge and with a golden cross scores 7. The
  function returns for every indexer that sorts descending.
\<close>

theorem breakout_score_rule:
  assumes "sorts_descending srt"
  shows "\<exists>out. find_breakout_candidates srt fetch tickers = Inr out
     \<and> (\<forall>r\<in>set out.
           breakout_score r =
             3 * (if is_breaking_out r then 1 else 0)
             + 2 * (if near_52w_high r then 1 else 0)
             + 2 * (if volume_surge r then 1 else 0)
             + 2 * (if ma_crossover r = ''golden_cross'' then 1 else 0)
         \<and> is_breaking_out r = breaking_out (consolidation r)
         \<and> (is_breaking_out r \<and> near_52w_high r \<and> \<not> volume_surge r
              \<and> ma_crossover r = ''golden_cross'' \<longrightarrow> breakout_score r = 7))"
proof -
  obtain out where out: "find_breakout_candidates srt fetch tickers = Inr out"
    "mset out = mset (scored_candidates (scan_multiple_tickers fetch tickers))"
    using find_breakout_candidates_sorted [OF assms] by blast
  have "set out = set (scored_candidates (scan_multiple_tickers fetch tickers))"
    using out(2) by (rule mset_eq_setD)
  then have "\<forall>r\<in>set out. \<exists>s. r = score_row s"
    by (auto simp: scored_candidates_eq)
  then have "\<forall>r\<in>set out.
           breakout_score r =
             3 * (if is_breaking_out r then 1 else 0)
             + 2 * (if near_52w_high r then 1 else 0)
             + 2 * (if volume_surge r then 1 else 0)
             + 2 * (if ma_crossover r = ''golden_cross'' then 1 else 0)
         \<and> is_breaking_out r = breaking_out (consolidation r)"
    using score_row_rule by fastforce
  then show ?thesis using out(1) by auto
qed


lemma scan_ticker_fields:
  assumes "fetch t = Inr df" "50 \<le> length df" "calculate_52_week_high_low df = Inr stats"
  shows "\<exists>r. scan_ticker fetch t = Some r \<and> ticker r = t
           \<and> relative_volume r = calculate_relative_volume df 20
           \<and> volume_surge r = check_volume_surge df 2
           \<and> ma_crossover r = check_ma_crossover df
           \<and> near_52w_high r = fle (fabs (pct_from_high stats)) (Fin 5)
           \<and> consolidation r = check_consolidation_breakout df"
  using scan_ticker_Some [of fetch t df stats] assms by simp

lemma scan_seven:
  assumes "fetch t = Inr seven_frame"
  shows "\<exists>r. scan_ticker fetch t = Some r \<and> ticker r = t
           \<and> is_candidate (flag_row r) \<and> composite_score (flag_row r) = 7
           \<and> breaking_out (consolidation r) \<and> near_52w_high r \<and> \<not> volume_surge r
           \<and> ma_crossover r = ''golden_cross''"
proof -
  from scan_ticker_fields [of fetch t seven_frame, OF assms _ seven_stats] obtain r where
    "scan_ticker fetch t = Some r" "ticker r = t" "\<not> volume_surge r" "near_52w_high r"
    "ma_crossover r = ''golden_cross''" "breaking_out (consolidation r)"
    by (auto simp: seven_volume_surge seven_crossover seven_breakout seven_cols)
  then show ?thesis by (auto simp: is_candidate_def composite_score_def)
qed

lemma find_breakout_candidates_eval:
  assumes "scan_multiple_tickers fetch ts = rs" "rs \<noteq> []"
  shows "find_breakout_candidates srt fetch ts =
           take_rows (srt (map breakout_score (scored_candidates rs))) (scored_candidates rs)"
  using assms by (simp add: find_breakout_candidates_def Let_def)

theorem breakout_score_rule_witness:
  "sorts_descending stable_indexer
   \<and> map_sum id (map (\<lambda>r. (ticker r, is_breaking_out r, near_52w_high r, volume_surge r,
                             ma_crossover r, breakout_score r)))
       (find_breakout_candidates stable_indexer (serve [(''AAA'', seven_frame)]) [''AAA''])
     = Inr [(''AAA'', True, True, False, ''golden_cross'', 7)]"
proof -
  let ?f = "serve [(''AAA'', seven_frame)]"
  have f: "?f ''AAA'' = Inr seven_frame" by (simp add: serve_def)
  from scan_seven [of ?f "''AAA''", OF f] obtain r where r: "scan_ticker ?f ''AAA'' = Some r"
    "ticker r = ''AAA''" "is_candidate (flag_row r)" "breaking_out (consolidation r)"
    "near_52w_high r" "\<not> volume_surge r" "ma_crossover r = ''golden_cross''"
    by blast
  have "scan_multiple_tickers ?f [''AAA''] = [r]"
    using r(1) by (simp add: scan_multiple_tickers_eq List.map_filter_simps)
  then have run: "find_breakout_candidates stable_indexer ?f [''AAA''] = Inr [score_row r]"
    using r(3)
    by (simp add: find_breakout_candidates_eval [where rs = "[r]"] scored_candidates_eq
        stable_indexer_def take_rows_def)
  from breakout_score_rule [OF sorts_descending_stable, of ?f "[''AAA'']"] run
  have "breakout_score (score_row r) = 7" using r by simp
  then show ?thesis using run r sorts_descending_stable by simp
qed


section \<open>Adding the indicators to a frame\<close>

lemma calculate_ema_returns: "1 \<le> period \<Longrightarrow> \<exists>ys. calculate_ema xs period = Inr ys"
  by (cases xs) (simp_all add: calculate_ema_def ewm_mean_def)

lemma calculate_macd_returns:
  assumes "1 \<le> fast" "1 \<le> slow" "1 \<le> sig"
  shows "\<exists>m s h. calculate_macd xs fast slow sig = Inr (m, s, h)"
proof -
  obtain f where f: "calculate_ema xs fast = Inr f"
    using calculate_ema_returns [OF assms(1)] by blast
  obtain sl where sl: "calculate_ema xs slow = Inr sl"
    using calculate_ema_returns [OF assms(2)] by blast
  obtain sg where "calculate_ema (map (\<lambda>(a, b). fsub a b) (zip f sl)) sig = Inr sg"
    using calculate_ema_returns [OF assms(3)] by blast
  then show ?thesis using f sl by (simp add: calculate_macd_def Let_def)
qed

lemma calculate_obv_cases:
  "(df = [] \<and> calculate_obv df = Inl IndexError) \<or> (df \<noteq> [] \<and> (\<exists>ys. calculate_obv df = Inr ys))"
  by (cases df) (simp_all add: calculate_obv_def)

lemmas prog_defs =
  add_all_indicators_def and_then_def df_copy_def assign_def read_rows_def lift_result_def
  set_column_def returns_def has_volume_column_def

lemma add_all_indicators_run:
  assumes "df < length st" "df' < length st'" "st ! df = st' ! df'"
  shows "\<exists>fr res. add_all_indicators df st = (st @ [fr], map_sum id (\<lambda>_. length st) res)
           \<and> add_all_indicators df' st' = (st' @ [fr], map_sum id (\<lambda>_. length st') res)
           \<and> res = (if has_volume (st ! df) \<and> rows (st ! df) = [] then Inl IndexError
                     else Inr ())"
proof -
  let ?c = "col Close (rows (st' ! df'))"
  obtain e12 where e12: "calculate_ema ?c 12 = Inr e12"
    using calculate_ema_returns [of 12 ?c] by auto
  obtain e26 where e26: "calculate_ema ?c 26 = Inr e26"
    using calculate_ema_returns [of 26 ?c] by auto
  obtain m s h where macd: "calculate_macd ?c 12 26 9 = Inr (m, s, h)"
    using calculate_macd_returns [of 12 26 9 ?c] by auto
  obtain bu bm bl where bb: "calculate_bollinger_bands ?c 20 2 = (bu, bm, bl)"
    by (cases "calculate_bollinger_bands ?c 20 2") auto
  show ?thesis
  proof (cases "has_volume (st' ! df')")
    case False
    then show ?thesis
      using assms e12 e26 macd bb
      by (intro exI [of _ "Inr ()"] exI) (simp add: prog_defs nth_append)
  next
    case True
    from calculate_obv_cases [of "rows (st' ! df')"] show ?thesis
    proof (elim disjE conjE exE)
      assume "rows (st' ! df') = []" "calculate_obv (rows (st' ! df')) = Inl IndexError"
      then show ?thesis
        using assms e12 e26 macd bb True
        by (intro exI [of _ "Inl IndexError"] exI) (simp add: prog_defs nth_append)
    next
      fix ys assume "rows (st' ! df') \<noteq> []" "calculate_obv (rows (st' ! df')) = Inr ys"
      then show ?thesis
        using assms e12 e26 macd bb True
        by (intro exI [of _ "Inr ()"] exI) (simp add: prog_defs nth_append)
    qed
  qed
qed


text \<open>
  C9. \<open>add_all_indicators\<close> leaves its argument as it was, and every other frame
  that existed before the call; a second call on the same argument returns a new frame
  equal to the frame the first call returned, which the second call leaves as it
  was. The only exception the function raises is the IndexError of \<open>calculate_obv\<close> on
  a frame without rows that has a \<open>Volume\<close> column; it then raises at both calls.
\<close>

theorem add_all_indicators_pure:
  assumes "df < length st"
  shows "case add_all_indicators df st of (st1, res1) \<Rightarrow>
         (case add_all_indicators df st1 of (st2, res2) \<Rightarrow>
            st1 ! df = st ! df \<and> st2 ! df = st ! df
            \<and> (\<forall>a<length st. st1 ! a = st ! a \<and> st2 ! a = st ! a)
            \<and> (case res1 of
                  Inl e \<Rightarrow> res2 = Inl e \<and> e = IndexError
                              \<and> has_volume (st ! df) \<and> rows (st ! df) = []
                | Inr r1 \<Rightarrow>
                    (\<exists>r2. res2 = Inr r2 \<and> r1 \<noteq> df \<and> r2 \<noteq> df \<and> r2 \<noteq> r1
                          \<and> r1 < length st2 \<and> r2 < length st2
                          \<and> st2 ! r1 = st1 ! r1 \<and> st2 ! r2 = st2 ! r1)))"
proof -
  from add_all_indicators_run [OF assms assms refl] obtain fr res where
    run1: "add_all_indicators df st = (st @ [fr], map_sum id (\<lambda>_. length st) res)"
    and res: "res = (if has_volume (st ! df) \<and> rows (st ! df) = [] then Inl IndexError
                     else Inr ())"
    by blast
  have df1: "df < length (st @ [fr])" "st ! df = (st @ [fr]) ! df"
    using assms by (simp_all add: nth_append)
  from add_all_indicators_run [OF assms df1] obtain fr' res' where
    a: "add_all_indicators df st = (st @ [fr'], map_sum id (\<lambda>_. length st) res')"
    and run2: "add_all_indicators df (st @ [fr])
                 = ((st @ [fr]) @ [fr'], map_sum id (\<lambda>_. length (st @ [fr])) res')"
    and res': "res' = (if has_volume (st ! df) \<and> rows (st ! df) = [] then Inl IndexError
                     else Inr ())"
    by blast
  from a run1 have same: "fr' = fr" "res' = res"
    by (simp_all add: res res')
  have run2': "add_all_indicators df (st @ [fr])
                 = (st @ [fr, fr], map_sum id (\<lambda>_. Suc (length st)) res)"
    using run2 same by simp
  show ?thesis
    using assms by (auto simp: run1 run2' res nth_append)
qed

lemma length_store0 [simp]: "length store0 = 1"
  by (simp add: store0_def)

theorem add_all_indicators_pure_witness:
  "(0::nat) < length store0
   \<and> (case add_all_indicators 0 store0 of (st1, res1) \<Rightarrow>
       (case add_all_indicators 0 st1 of (st2, res2) \<Rightarrow>
          st1 ! 0 = store0 ! 0 \<and> st2 ! 0 = store0 ! 0
          \<and> res1 = Inr 1 \<and> res2 = Inr 2 \<and> st2 ! 2 = st2 ! 1))"
proof -
  have n: "(0::nat) < length store0" by simp
  have v: "\<not> (has_volume (store0 ! 0) \<and> rows (store0 ! 0) = [])" by (simp add: store0_def)
  from add_all_indicators_run [OF n n refl] v obtain fr where
    run1: "add_all_indicators 0 store0 = (store0 @ [fr], Inr 1)"
    by auto
  have n1: "0 < length (store0 @ [fr])" "store0 ! 0 = (store0 @ [fr]) ! 0"
    by (simp_all add: nth_append)
  from add_all_indicators_run [OF n n1] v obtain fr' where
    run2: "add_all_indicators 0 (store0 @ [fr]) = ((store0 @ [fr]) @ [fr'], Inr 2)"
    by auto
  show ?thesis
    using add_all_indicators_pure [OF n] by (simp add: run1 run2 nth_append)
qed


end
